theory Spec2Isabelle
  imports Main
begin

section \<open>Python values used by monitor.py\<close>

text \<open>
  A Python \<open>str\<close> is a sequence of Unicode code points. The provider names and the
  whitespace that \<open>str.split\<close> and \<open>str.strip\<close> recognise lie outside ASCII, so a string
  is modelled as the list of its code points.
\<close>

type_synonym ustr = "nat list"

definition ascii :: "string \<Rightarrow> ustr" where
  "ascii s = map of_char s"

text \<open>The exceptions (all subclasses of \<open>Exception\<close>) that the modelled code can raise.\<close>

datatype error =
    ConnectionError
  | JSONDecodeError
  | KeyError
  | TypeError
  | AttributeError
  | IndexError
  | ValueError
  | OverflowError
  | OtherException ustr

text \<open>\<open>str.isspace\<close> for one code point (the Unicode whitespace characters).\<close>

definition isspace :: "nat \<Rightarrow> bool" where
  "isspace c \<longleftrightarrow>
     (9 \<le> c \<and> c \<le> 13) \<or> (28 \<le> c \<and> c \<le> 32) \<or> c = 133 \<or> c = 160 \<or> c = 5760 \<or>
     (8192 \<le> c \<and> c \<le> 8202) \<or> c = 8232 \<or> c = 8233 \<or> c = 8239 \<or> c = 8287 \<or>
     c = 12288"

text \<open>\<open>s.strip()\<close>: leading and trailing whitespace removed.\<close>

definition strip :: "ustr \<Rightarrow> ustr" where
  "strip s = rev (dropWhile isspace (rev (dropWhile isspace s)))"

text \<open>
  \<open>s.split()\<close>: the maximal runs of non-whitespace, in order. The accumulator \<open>cur\<close>
  holds the current run reversed.
\<close>

fun split_ws_acc :: "ustr \<Rightarrow> ustr \<Rightarrow> ustr list" where
  "split_ws_acc cur [] = (if cur = [] then [] else [rev cur])"
| "split_ws_acc cur (c # cs) =
     (if isspace c then (if cur = [] then split_ws_acc [] cs else rev cur # split_ws_acc [] cs)
      else split_ws_acc (c # cur) cs)"

definition split_ws :: "ustr \<Rightarrow> ustr list" where
  "split_ws s = split_ws_acc [] s"

text \<open>
  \<open>s.split(sep)\<close> for a one-character separator: never empty, one more field than
  there are separators.
\<close>

fun split_on_acc :: "nat \<Rightarrow> ustr \<Rightarrow> ustr \<Rightarrow> ustr list" where
  "split_on_acc sep cur [] = [rev cur]"
| "split_on_acc sep cur (c # cs) =
     (if c = sep then rev cur # split_on_acc sep [] cs else split_on_acc sep (c # cur) cs)"

definition split_on :: "nat \<Rightarrow> ustr \<Rightarrow> ustr list" where
  "split_on sep s = split_on_acc sep [] s"

subsection \<open>Calendar dates and \<open>datetime.strptime(s, "%Y-%m-%d")\<close>\<close>

datatype date = Date (year: nat) (month: nat) (day: nat)

text \<open>\<open>a >= b\<close> on \<open>datetime.date\<close> values.\<close>

definition date_ge :: "date \<Rightarrow> date \<Rightarrow> bool" where
  "date_ge a b \<longleftrightarrow>
     year a > year b \<or>
     (year a = year b \<and> (month a > month b \<or> (month a = month b \<and> day a \<ge> day b)))"

text \<open>
  The decimal digits \<open>\d\<close> matches and \<open>int\<close> converts: the Unicode characters of category
  Nd (Unicode 14.0), which come in runs of ten, from the zero to the nine. The list holds
  the code point of each zero.
\<close>

definition digit_zeros :: "nat list" where
  "digit_zeros =
     [48, 1632, 1776, 1984, 2406, 2534, 2662, 2790, 2918, 3046, 3174, 3302, 3430, 3558, 3664,
      3792, 3872, 4160, 4240, 6112, 6160, 6470, 6608, 6784, 6800, 6992, 7088, 7232, 7248,
      42528, 43216, 43264, 43472, 43504, 43600, 44016, 65296, 66720, 68912, 69734, 69872,
      69942, 70096, 70384, 70736, 70864, 71248, 71360, 71472, 71904, 72016, 72784, 73040,
      73120, 92768, 92864, 93008, 120782, 120792, 120802, 120812, 120822, 123200, 123632,
      125264, 130032]"

definition digit_zero :: "nat \<Rightarrow> nat option" where
  "digit_zero c = find (\<lambda>z. z \<le> c \<and> c \<le> z + 9) digit_zeros"

definition is_digit :: "nat \<Rightarrow> bool" where
  "is_digit c \<longleftrightarrow> digit_zero c \<noteq> None"

definition digit_val :: "nat \<Rightarrow> nat" where
  "digit_val c = (case digit_zero c of None \<Rightarrow> 0 | Some z \<Rightarrow> c - z)"

text \<open>
  The directive \<open>%m\<close> matches \<open>1[0-2]|0[1-9]|[1-9]\<close>; the result is the month and the
  rest of the input.
\<close>

fun match_month :: "ustr \<Rightarrow> (nat \<times> ustr) option" where
  "match_month (a # b # r) =
     (if a = 49 \<and> 48 \<le> b \<and> b \<le> 50 then Some (10 + digit_val b, r)
      else if a = 48 \<and> 49 \<le> b \<and> b \<le> 57 then Some (digit_val b, r)
      else if 49 \<le> a \<and> a \<le> 57 then Some (digit_val a, b # r)
      else None)"
| "match_month [a] = (if 49 \<le> a \<and> a \<le> 57 then Some (digit_val a, []) else None)"
| "match_month [] = None"

text \<open>The directive \<open>%d\<close> matches \<open>3[01]|[12]\d|0[1-9]|[1-9]| [1-9]\<close>.\<close>

fun match_day :: "ustr \<Rightarrow> (nat \<times> ustr) option" where
  "match_day (a # b # r) =
     (if a = 51 \<and> (b = 48 \<or> b = 49) then Some (30 + digit_val b, r)
      else if (a = 49 \<or> a = 50) \<and> is_digit b then Some (10 * digit_val a + digit_val b, r)
      else if a = 48 \<and> 49 \<le> b \<and> b \<le> 57 then Some (digit_val b, r)
      else if 49 \<le> a \<and> a \<le> 57 then Some (digit_val a, b # r)
      else if a = 32 \<and> 49 \<le> b \<and> b \<le> 57 then Some (digit_val b, r)
      else None)"
| "match_day [a] = (if 49 \<le> a \<and> a \<le> 57 then Some (digit_val a, []) else None)"
| "match_day [] = None"

definition is_leap :: "nat \<Rightarrow> bool" where
  "is_leap y \<longleftrightarrow> y mod 4 = 0 \<and> (y mod 100 \<noteq> 0 \<or> y mod 400 = 0)"

definition days_in_month :: "nat \<Rightarrow> nat \<Rightarrow> nat" where
  "days_in_month y m =
     (if m = 2 then (if is_leap y then 29 else 28)
      else if m = 4 \<or> m = 6 \<or> m = 9 \<or> m = 11 then 30 else 31)"

text \<open>
  \<open>strptime\<close> with the format \<open>%Y-%m-%d\<close>: four digits, a dash, a month, a dash, a day and
  nothing after it; then the date must exist (years start at 1). Every failure is a
  \<open>ValueError\<close>. The year, and the second digit of a day written \<open>[12]\d\<close>, may be any
  decimal digits; the other digits are ASCII, as the patterns of the directives spell
  them.
\<close>

fun strptime :: "ustr \<Rightarrow> error + date" where
  "strptime (y1 # y2 # y3 # y4 # dash # rest) =
     (if is_digit y1 \<and> is_digit y2 \<and> is_digit y3 \<and> is_digit y4 \<and> dash = 45 then
        (case match_month rest of
           None \<Rightarrow> Inl ValueError
         | Some (m, rest1) \<Rightarrow>
             (case rest1 of
                [] \<Rightarrow> Inl ValueError
              | dash2 # rest2 \<Rightarrow>
                  if dash2 \<noteq> 45 then Inl ValueError
                  else (case match_day rest2 of
                          None \<Rightarrow> Inl ValueError
                        | Some (d, rest3) \<Rightarrow>
                            let y = 1000 * digit_val y1 + 100 * digit_val y2
                                    + 10 * digit_val y3 + digit_val y4
                            in if rest3 \<noteq> [] then Inl ValueError
                               else if y < 1 \<or> d > days_in_month y m then Inl ValueError
                               else Inr (Date y m d))))
      else Inl ValueError)"
| "strptime _ = Inl ValueError"

section \<open>What the network returns\<close>

text \<open>
  The value \<open>response.json()\<close> returns: \<open>None\<close>, a bool, an int, a str, a list or a dict
  (an association list, the first binding of a key being the dict's). Fractional numbers
  are left out: no function below computes with one.
\<close>

datatype pyval =
    PNone
  | PBool bool
  | PInt int
  | PStr ustr
  | PList "pyval list"
  | PDict "(ustr \<times> pyval) list"

text \<open>
  One element chosen by the adapter's list selector: the anchor its link selector finds,
  if any, with the anchor's text and \<open>href\<close> attribute, and the text of the element its
  time selector finds, if any.
\<close>

record anchor =
  a_text :: ustr
  href :: "ustr option"

record element =
  link :: "anchor option"
  time_el :: "ustr option"

text \<open>
  An HTTP response as the code reads it: the status, the body text, what \<open>json()\<close> returns
  or raises, and the elements that \<open>BeautifulSoup(text, 'html.parser').select(...)\<close> yields.
\<close>

record response =
  status_code :: int
  resp_text :: ustr
  json :: "error + pyval"
  select :: "element list"

text \<open>
  What each \<open>requests.get\<close> of one poll cycle gives: a response, or the exception it raises.
\<close>

record network =
  wx_normal :: "error + response"
  wx_pinned :: "error + response"
  tc_page :: "error + response"
  yp_page :: "error + response"

subsection \<open>Operations on Python values\<close>

text \<open>\<open>v[key]\<close> for a string key.\<close>

definition subscript :: "pyval \<Rightarrow> ustr \<Rightarrow> error + pyval" where
  "subscript v k =
     (case v of
        PDict kvs \<Rightarrow> (case map_of kvs k of None \<Rightarrow> Inl KeyError | Some x \<Rightarrow> Inr x)
      | _ \<Rightarrow> Inl TypeError)"

text \<open>\<open>v.get(key)\<close>: only a dict has the method.\<close>

definition dict_get :: "pyval \<Rightarrow> ustr \<Rightarrow> error + pyval" where
  "dict_get v k =
     (case v of
        PDict kvs \<Rightarrow> (case map_of kvs k of None \<Rightarrow> Inr PNone | Some x \<Rightarrow> Inr x)
      | _ \<Rightarrow> Inl AttributeError)"

text \<open>\<open>v == 0\<close>.\<close>

definition eq_zero :: "pyval \<Rightarrow> bool" where
  "eq_zero v \<longleftrightarrow> v = PInt 0 \<or> v = PBool False"

text \<open>The elements \<open>items.extend(v)\<close> appends: those iterating over \<open>v\<close> yields.\<close>

definition iterate :: "pyval \<Rightarrow> error + pyval list" where
  "iterate v =
     (case v of
        PList xs \<Rightarrow> Inr xs
      | PDict kvs \<Rightarrow> Inr (map (\<lambda>kv. PStr (fst kv)) kvs)
      | PStr s \<Rightarrow> Inr (map (\<lambda>c. PStr [c]) s)
      | _ \<Rightarrow> Inl TypeError)"

function digits_of :: "nat \<Rightarrow> ustr" where
  "digits_of n = (if n < 10 then [48 + n] else digits_of (n div 10) @ [48 + n mod 10])"
  by pat_completeness auto
termination
  by (relation "measure id") auto

declare digits_of.simps [simp del]

definition str_int :: "int \<Rightarrow> ustr" where
  "str_int i = (if i < 0 then 45 # digits_of (nat (- i)) else digits_of (nat i))"

text \<open>
  \<open>str(v)\<close>, as an f-string applies it. The text of a list or a dict is Python's \<open>repr\<close>,
  taken as the parameter \<open>repr\<close>.
\<close>

definition py_str :: "(pyval \<Rightarrow> ustr) \<Rightarrow> pyval \<Rightarrow> ustr" where
  "py_str repr v =
     (case v of
        PStr s \<Rightarrow> s
      | PInt i \<Rightarrow> str_int i
      | PBool b \<Rightarrow> (if b then ascii ''True'' else ascii ''False'')
      | PNone \<Rightarrow> ascii ''None''
      | _ \<Rightarrow> repr v)"

section \<open>Announcements and their sources\<close>

text \<open>The dict \<open>format_notification\<close> returns.\<close>

record announcement =
  title :: ustr
  date :: ustr
  time :: ustr
  url :: ustr
  source :: ustr

text \<open>
  \<open>AnnouncementSource\<close>: the two abstract methods, and the class name that \<open>check_updates\<close>
  prints. \<open>'w\<close> is what the source reads from the outside during one call, \<open>'r\<close> the type
  of its raw items.
\<close>

record ('w, 'r) announcement_source =
  class_name :: ustr
  get_announcements :: "'w \<Rightarrow> error + 'r list"
  format_notification :: "'r \<Rightarrow> error + announcement"

subsection \<open>\<open>WeixinPaySource\<close>\<close>

text \<open>
  One of the two blocks after the requests: a response with status 200 is decoded, and
  when its \<open>errorcode\<close> is 0 its \<open>data.contentlist\<close> is what \<open>items.extend\<close> receives.
\<close>

definition contentlist_of :: "response \<Rightarrow> error + pyval list" where
  "contentlist_of r =
     (if status_code r = 200 then
        (case json r of
           Inl e \<Rightarrow> Inl e
         | Inr data \<Rightarrow>
             (case dict_get data (ascii ''errorcode'') of
                Inl e \<Rightarrow> Inl e
              | Inr code \<Rightarrow>
                  if eq_zero code then
                    (case subscript data (ascii ''data'') of
                       Inl e \<Rightarrow> Inl e
                     | Inr d \<Rightarrow>
                         (case subscript d (ascii ''contentlist'') of
                            Inl e \<Rightarrow> Inl e
                          | Inr l \<Rightarrow> iterate l))
                  else Inr []))
      else Inr [])"

text \<open>
  Both requests are made before either response is looked at, and nothing catches what
  they or the decoding raise.
\<close>

definition WeixinPaySource_get_announcements :: "network \<Rightarrow> error + pyval list" where
  "WeixinPaySource_get_announcements net =
     (case wx_normal net of
        Inl e \<Rightarrow> Inl e
      | Inr response1 \<Rightarrow>
          (case wx_pinned net of
             Inl e \<Rightarrow> Inl e
           | Inr response2 \<Rightarrow>
               (case contentlist_of response1 of
                  Inl e \<Rightarrow> Inl e
                | Inr items1 \<Rightarrow>
                    (case contentlist_of response2 of
                       Inl e \<Rightarrow> Inl e
                     | Inr items2 \<Rightarrow> Inr (items1 @ items2)))))"

text \<open>The argument of \<open>datetime.fromtimestamp\<close>: an int (a bool is one).\<close>

definition timestamp_arg :: "pyval \<Rightarrow> error + int" where
  "timestamp_arg v =
     (case v of
        PInt i \<Rightarrow> Inr i
      | PBool b \<Rightarrow> Inr (if b then 1 else 0)
      | _ \<Rightarrow> Inl TypeError)"

text \<open>
  \<open>localtime\<close> stands for \<open>datetime.fromtimestamp\<close> followed by the two \<open>strftime\<close> calls: for
  a timestamp, the local date as \<open>%Y-%m-%d\<close> and the local time as \<open>%H:%M:%S\<close>, or the
  exception for a timestamp out of the platform's range. It depends on the time zone of
  the process. The title is kept as the text an f-string gives it.
\<close>

definition WeixinPaySource_format_notification ::
  "(int \<Rightarrow> error + ustr \<times> ustr) \<Rightarrow> (pyval \<Rightarrow> ustr) \<Rightarrow> pyval \<Rightarrow> error + announcement" where
  "WeixinPaySource_format_notification localtime repr item =
     (case subscript item (ascii ''contentPublishTime'') of
        Inl e \<Rightarrow> Inl e
      | Inr ts \<Rightarrow>
          (case timestamp_arg ts of
             Inl e \<Rightarrow> Inl e
           | Inr t \<Rightarrow>
               (case localtime t of
                  Inl e \<Rightarrow> Inl e
                | Inr publish_time \<Rightarrow>
                    (case subscript item (ascii ''contentTitle'') of
                       Inl e \<Rightarrow> Inl e
                     | Inr content_title \<Rightarrow>
                         (case subscript item (ascii ''contentId'') of
                            Inl e \<Rightarrow> Inl e
                          | Inr content_id \<Rightarrow>
                              Inr \<lparr>title = py_str repr content_title,
                                   date = fst publish_time,
                                   time = snd publish_time,
                                   url = ascii ''https://pay.weixin.qq.com/index.php/public/cms/content_detail?id=''
                                         @ py_str repr content_id,
                                   source = [24494, 20449, 25903, 20184]\<rparr>)))))"

subsection \<open>\<open>TencentCloudSource\<close>\<close>

record tencent_item =
  tc_title :: ustr
  announceId :: ustr
  beginTime :: ustr

text \<open>
  The body of the inner \<open>try\<close> for one element: nothing is appended unless both selectors
  found something; a link without \<open>href\<close> raises \<open>KeyError\<close>.
\<close>

definition tencent_parse :: "element \<Rightarrow> error + tencent_item option" where
  "tencent_parse item =
     (case (link item, time_el item) of
        (Some l, Some time_span) \<Rightarrow>
          (case href l of
             None \<Rightarrow> Inl KeyError
           | Some h \<Rightarrow>
               Inr (Some \<lparr>tc_title = strip (a_text l),
                          announceId = last (split_on 47 h),
                          beginTime = strip time_span\<rparr>))
      | _ \<Rightarrow> Inr None)"

text \<open>The \<open>for\<close> loop: an element whose parsing raises is skipped.\<close>

fun tencent_items :: "element list \<Rightarrow> tencent_item list" where
  "tencent_items [] = []"
| "tencent_items (item # rest) =
     (case tencent_parse item of
        Inl e \<Rightarrow> tencent_items rest
      | Inr None \<Rightarrow> tencent_items rest
      | Inr (Some a) \<Rightarrow> a # tencent_items rest)"

text \<open>The body of the outer \<open>try\<close>, then the method with its handler.\<close>

definition TencentCloudSource_try :: "network \<Rightarrow> error + tencent_item list" where
  "TencentCloudSource_try net =
     (case tc_page net of
        Inl e \<Rightarrow> Inl e
      | Inr r \<Rightarrow> if status_code r \<noteq> 200 then Inr [] else Inr (tencent_items (select r)))"

definition TencentCloudSource_get_announcements :: "network \<Rightarrow> error + tencent_item list" where
  "TencentCloudSource_get_announcements net =
     (case TencentCloudSource_try net of Inl e \<Rightarrow> Inr [] | Inr announcements \<Rightarrow> Inr announcements)"

definition TencentCloudSource_format_notification :: "tencent_item \<Rightarrow> error + announcement" where
  "TencentCloudSource_format_notification item =
     (let date_time = split_ws (beginTime item)
      in case date_time of
           [] \<Rightarrow> Inl IndexError
         | d # ts \<Rightarrow>
             Inr \<lparr>title = tc_title item,
                  date = d,
                  time = (if length date_time > 1 then hd ts else []),
                  url = ascii ''https://cloud.tencent.com/announce/detail/'' @ announceId item,
                  source = [33150, 35759, 20113]\<rparr>)"

subsection \<open>\<open>YeepaySource\<close>\<close>

record yeepay_item =
  yp_title :: ustr
  noticeId :: ustr
  pubTime :: ustr

definition yeepay_parse :: "element \<Rightarrow> error + yeepay_item option" where
  "yeepay_parse tr =
     (case (link tr, time_el tr) of
        (Some l, Some time_td) \<Rightarrow>
          (case href l of
             None \<Rightarrow> Inl KeyError
           | Some h \<Rightarrow>
               Inr (Some \<lparr>yp_title = strip (a_text l),
                          noticeId = last (split_on 47 h),
                          pubTime = strip time_td\<rparr>))
      | _ \<Rightarrow> Inr None)"

fun yeepay_items :: "element list \<Rightarrow> yeepay_item list" where
  "yeepay_items [] = []"
| "yeepay_items (tr # rest) =
     (case yeepay_parse tr of
        Inl e \<Rightarrow> yeepay_items rest
      | Inr None \<Rightarrow> yeepay_items rest
      | Inr (Some a) \<Rightarrow> a # yeepay_items rest)"

definition YeepaySource_try :: "network \<Rightarrow> error + yeepay_item list" where
  "YeepaySource_try net =
     (case yp_page net of
        Inl e \<Rightarrow> Inl e
      | Inr r \<Rightarrow> if status_code r \<noteq> 200 then Inr [] else Inr (yeepay_items (select r)))"

definition YeepaySource_get_announcements :: "network \<Rightarrow> error + yeepay_item list" where
  "YeepaySource_get_announcements net =
     (case YeepaySource_try net of Inl e \<Rightarrow> Inr [] | Inr announcements \<Rightarrow> Inr announcements)"

definition YeepaySource_format_notification :: "yeepay_item \<Rightarrow> error + announcement" where
  "YeepaySource_format_notification item =
     (let date_time = split_ws (pubTime item)
      in case date_time of
           [] \<Rightarrow> Inl IndexError
         | d # ts \<Rightarrow>
             Inr \<lparr>title = yp_title item,
                  date = d,
                  time = (if length date_time > 1 then hd ts else []),
                  url = ascii ''https://www.yeepay.com/notice-detail/'' @ noticeId item,
                  source = [26131, 23453, 25903, 20184]\<rparr>)"

section \<open>\<open>AnnouncementMonitor\<close>\<close>

text \<open>What the monitor prints, without the clock time that starts some of the lines.\<close>

datatype log_line =
    Checking ustr nat
  | DebugDetected ustr
  | Detected ustr
  | FirstRunCollected nat
  | SendFailed ustr
  | CheckError error

text \<open>
  The object's four attributes, and two traces of what it has done to the outside:
  \<open>posts\<close>, the announcement of every call of \<open>send_notification\<close> in order (each call makes
  one \<open>requests.post\<close>), and \<open>stdout\<close>, the lines printed.
\<close>

record ('w, 'r) monitor =
  sources :: "('w, 'r) announcement_source list"
  last_items :: "ustr set"
  debug_time :: "date option"
  is_first_run :: bool
  posts :: "announcement list"
  stdout :: "log_line list"

text \<open>
  A statement either completes or raises; the object keeps what was done to it before
  the exception.
\<close>

datatype 'a outcome = Done (state_of: 'a) | Raised error (state_of: 'a)

definition AnnouncementMonitor_init :: "('w, 'r) monitor" where
  "AnnouncementMonitor_init =
     \<lparr>sources = [], last_items = {}, debug_time = None, is_first_run = True,
      posts = [], stdout = []\<rparr>"

definition add_source ::
  "('w, 'r) announcement_source \<Rightarrow> ('w, 'r) monitor \<Rightarrow> ('w, 'r) monitor" where
  "add_source src m = m\<lparr>sources := sources m @ [src]\<rparr>"

definition set_debug_time :: "ustr \<Rightarrow> ('w, 'r) monitor \<Rightarrow> ('w, 'r) monitor outcome" where
  "set_debug_time debug_time_str m =
     (case strptime debug_time_str of
        Inl e \<Rightarrow> Raised e m
      | Inr d \<Rightarrow> Done (m\<lparr>debug_time := Some d\<rparr>))"

definition print :: "log_line \<Rightarrow> ('w, 'r) monitor \<Rightarrow> ('w, 'r) monitor" where
  "print l m = m\<lparr>stdout := stdout m @ [l]\<rparr>"

text \<open>
  The webhook is the parameter \<open>webhook\<close>: what \<open>requests.post\<close> gives for the \<open>n\<close>-th request
  of the process (counting from 0) when it carries the given announcement, a response or
  an exception. The message body is built from the announcement and the clock and cannot
  fail; only the announcement is recorded.
\<close>

definition send_notification ::
  "(nat \<Rightarrow> announcement \<Rightarrow> error + response) \<Rightarrow> announcement \<Rightarrow> ('w, 'r) monitor
   \<Rightarrow> ('w, 'r) monitor outcome" where
  "send_notification webhook item m =
     (let m1 = m\<lparr>posts := posts m @ [item]\<rparr>
      in case webhook (length (posts m)) item of
           Inl e \<Rightarrow> Raised e m1
         | Inr r \<Rightarrow>
             if status_code r \<noteq> 200 then Done (print (SendFailed (resp_text r)) m1)
             else Done m1)"

definition item_key :: "announcement \<Rightarrow> ustr" where
  "item_key item = source item @ [95] @ title item @ [95] @ date item"

definition add_key :: "ustr \<Rightarrow> ('w, 'r) monitor \<Rightarrow> ('w, 'r) monitor" where
  "add_key k m = m\<lparr>last_items := insert k (last_items m)\<rparr>"

text \<open>The body of the inner \<open>for\<close> loop of \<open>check_updates\<close>, for one raw item.\<close>

definition check_item ::
  "(nat \<Rightarrow> announcement \<Rightarrow> error + response) \<Rightarrow> ('w, 'r) announcement_source \<Rightarrow> 'r
   \<Rightarrow> ('w, 'r) monitor \<Rightarrow> ('w, 'r) monitor outcome" where
  "check_item webhook src raw_item m =
     (case format_notification src raw_item of
        Inl e \<Rightarrow> Raised e m
      | Inr item \<Rightarrow>
          (case strptime (date item) of
             Inl e \<Rightarrow> Raised e m
           | Inr item_date \<Rightarrow>
               (case debug_time m of
                  Some dt \<Rightarrow>
                    if date_ge item_date dt then
                      (let m1 = print (DebugDetected (item_key item)) m
                       in if \<not> is_first_run m1 \<and> item_key item \<notin> last_items m1 then
                            (case send_notification webhook item m1 of
                               Raised e m2 \<Rightarrow> Raised e m2
                             | Done m2 \<Rightarrow> Done (add_key (item_key item) m2))
                          else if is_first_run m1 then Done (add_key (item_key item) m1)
                          else Done m1)
                    else Done m
                | None \<Rightarrow>
                    if item_key item \<notin> last_items m then
                      (let m1 = print (Detected (item_key item)) m
                       in if \<not> is_first_run m1 then
                            (case send_notification webhook item m1 of
                               Raised e m2 \<Rightarrow> Raised e m2
                             | Done m2 \<Rightarrow> Done (add_key (item_key item) m2))
                          else Done (add_key (item_key item) m1))
                    else Done m)))"

text \<open>The inner loop: the first exception ends it.\<close>

fun check_items ::
  "(nat \<Rightarrow> announcement \<Rightarrow> error + response) \<Rightarrow> ('w, 'r) announcement_source \<Rightarrow> 'r list
   \<Rightarrow> ('w, 'r) monitor \<Rightarrow> ('w, 'r) monitor outcome" where
  "check_items webhook src [] m = Done m"
| "check_items webhook src (raw_item # rest) m =
     (case check_item webhook src raw_item m of
        Raised e m1 \<Rightarrow> Raised e m1
      | Done m1 \<Rightarrow> check_items webhook src rest m1)"

text \<open>The outer loop, over the sources in the order they were added.\<close>

fun check_sources ::
  "'w \<Rightarrow> (nat \<Rightarrow> announcement \<Rightarrow> error + response) \<Rightarrow> ('w, 'r) announcement_source list
   \<Rightarrow> ('w, 'r) monitor \<Rightarrow> ('w, 'r) monitor outcome" where
  "check_sources net webhook [] m = Done m"
| "check_sources net webhook (src # rest) m =
     (case get_announcements src net of
        Inl e \<Rightarrow> Raised e m
      | Inr items \<Rightarrow>
          (case check_items webhook src items (print (Checking (class_name src) (length items)) m) of
             Raised e m1 \<Rightarrow> Raised e m1
           | Done m1 \<Rightarrow> check_sources net webhook rest m1))"

text \<open>The body of the \<open>try\<close> of \<open>check_updates\<close>.\<close>

definition check_updates_try ::
  "'w \<Rightarrow> (nat \<Rightarrow> announcement \<Rightarrow> error + response) \<Rightarrow> ('w, 'r) monitor
   \<Rightarrow> ('w, 'r) monitor outcome" where
  "check_updates_try net webhook m =
     (case check_sources net webhook (sources m) m of
        Raised e m1 \<Rightarrow> Raised e m1
      | Done m1 \<Rightarrow>
          if is_first_run m1 then
            Done ((print (FirstRunCollected (card (last_items m1))) m1)\<lparr>is_first_run := False\<rparr>)
          else Done m1)"

text \<open>\<open>check_updates\<close>: whatever the body raises is printed, and the method returns.\<close>

definition check_updates ::
  "'w \<Rightarrow> (nat \<Rightarrow> announcement \<Rightarrow> error + response) \<Rightarrow> ('w, 'r) monitor \<Rightarrow> ('w, 'r) monitor" where
  "check_updates net webhook m =
     (case check_updates_try net webhook m of
        Raised e m1 \<Rightarrow> print (CheckError e) m1
      | Done m1 \<Rightarrow> m1)"

text \<open>
  \<open>run\<close> never returns; \<open>run n\<close> is the monitor after the first \<open>n\<close> turns of its loop, the
  \<open>i\<close>-th turn reading \<open>nets i\<close> from the network. The line printed at start-up and the
  sleep between two turns are left out.
\<close>

fun run ::
  "(nat \<Rightarrow> 'w) \<Rightarrow> (nat \<Rightarrow> announcement \<Rightarrow> error + response) \<Rightarrow> nat \<Rightarrow> ('w, 'r) monitor
   \<Rightarrow> ('w, 'r) monitor" where
  "run nets webhook 0 m = m"
| "run nets webhook (Suc n) m = check_updates (nets n) webhook (run nets webhook n m)"

subsection \<open>The monitor the script builds\<close>

text \<open>
  The three sources in one list: a raw item carries the class of the source that made
  it, and a source handed another's item finds none of its keys in it.
\<close>

datatype raw_item =
    WeixinPayItem pyval
  | TencentCloudItem tencent_item
  | YeepayItem yeepay_item

definition WeixinPaySource ::
  "(int \<Rightarrow> error + ustr \<times> ustr) \<Rightarrow> (pyval \<Rightarrow> ustr) \<Rightarrow> (network, raw_item) announcement_source" where
  "WeixinPaySource localtime repr =
     \<lparr>class_name = ascii ''WeixinPaySource'',
      get_announcements = (\<lambda>net. case WeixinPaySource_get_announcements net of
                                    Inl e \<Rightarrow> Inl e | Inr items \<Rightarrow> Inr (map WeixinPayItem items)),
      format_notification = (\<lambda>r. case r of
                                    WeixinPayItem item \<Rightarrow>
                                      WeixinPaySource_format_notification localtime repr item
                                  | _ \<Rightarrow> Inl KeyError)\<rparr>"

definition TencentCloudSource :: "(network, raw_item) announcement_source" where
  "TencentCloudSource =
     \<lparr>class_name = ascii ''TencentCloudSource'',
      get_announcements = (\<lambda>net. case TencentCloudSource_get_announcements net of
                                    Inl e \<Rightarrow> Inl e | Inr items \<Rightarrow> Inr (map TencentCloudItem items)),
      format_notification = (\<lambda>r. case r of
                                    TencentCloudItem item \<Rightarrow> TencentCloudSource_format_notification item
                                  | _ \<Rightarrow> Inl KeyError)\<rparr>"

definition YeepaySource :: "(network, raw_item) announcement_source" where
  "YeepaySource =
     \<lparr>class_name = ascii ''YeepaySource'',
      get_announcements = (\<lambda>net. case YeepaySource_get_announcements net of
                                    Inl e \<Rightarrow> Inl e | Inr items \<Rightarrow> Inr (map YeepayItem items)),
      format_notification = (\<lambda>r. case r of
                                    YeepayItem item \<Rightarrow> YeepaySource_format_notification item
                                  | _ \<Rightarrow> Inl KeyError)\<rparr>"

definition main_monitor ::
  "(int \<Rightarrow> error + ustr \<times> ustr) \<Rightarrow> (pyval \<Rightarrow> ustr) \<Rightarrow> (network, raw_item) monitor" where
  "main_monitor localtime repr =
     add_source YeepaySource
       (add_source TencentCloudSource
          (add_source (WeixinPaySource localtime repr) AnnouncementMonitor_init))"

section \<open>Notions used to state the properties\<close>

text \<open>
  In DEBUG mode (a cutoff is set) an announcement is a candidate when its date is on or
  after the cutoff; without a cutoff every announcement is one.
\<close>

definition is_candidate :: "date option \<Rightarrow> announcement \<Rightarrow> bool" where
  "is_candidate dbg a =
     (case dbg of
        None \<Rightarrow> True
      | Some c \<Rightarrow> (case strptime (date a) of Inl e \<Rightarrow> False | Inr d \<Rightarrow> date_ge d c))"

text \<open>
  What any part of a poll cycle does to the monitor, whether it completes or raises: the
  sources and the cutoff stay, the ledger only grows, and each request added to \<open>posts\<close>
  is for a candidate whose key the ledger did not hold before.
\<close>

definition grows :: "('w, 'r) monitor \<Rightarrow> ('w, 'r) monitor \<Rightarrow> bool" where
  "grows m m' \<longleftrightarrow>
     sources m' = sources m \<and> debug_time m' = debug_time m \<and>
     last_items m \<subseteq> last_items m' \<and>
     (\<exists>ps. posts m' = posts m @ ps \<and>
        (\<forall>a \<in> set ps. item_key a \<notin> last_items m \<and> is_candidate (debug_time m) a))"

text \<open>
  A raw item is well formed when the source normalizes it and the date of the result
  parses; \<open>formatted\<close> lists the announcements a source makes of its raw items.
\<close>

definition well_formed :: "('w, 'r) announcement_source \<Rightarrow> 'r \<Rightarrow> bool" where
  "well_formed src raw =
     (case format_notification src raw of
        Inl e \<Rightarrow> False
      | Inr a \<Rightarrow> (case strptime (date a) of Inl e \<Rightarrow> False | Inr d \<Rightarrow> True))"

fun formatted :: "('w, 'r) announcement_source \<Rightarrow> 'r list \<Rightarrow> announcement list" where
  "formatted src [] = []"
| "formatted src (raw # rest) =
     (case format_notification src raw of
        Inl e \<Rightarrow> formatted src rest
      | Inr a \<Rightarrow> a # formatted src rest)"

text \<open>
  A source's fetch is in order when it returns and all its items are well formed;
  \<open>fetched\<close> lists the announcements of one cycle, source by source in the order of
  registration.
\<close>

definition fetch_ok :: "'w \<Rightarrow> ('w, 'r) announcement_source \<Rightarrow> bool" where
  "fetch_ok net src =
     (case get_announcements src net of
        Inl e \<Rightarrow> False
      | Inr items \<Rightarrow> list_all (well_formed src) items)"

definition fetched_from :: "'w \<Rightarrow> ('w, 'r) announcement_source \<Rightarrow> announcement list" where
  "fetched_from net src =
     (case get_announcements src net of Inl e \<Rightarrow> [] | Inr items \<Rightarrow> formatted src items)"

definition fetched :: "'w \<Rightarrow> ('w, 'r) announcement_source list \<Rightarrow> announcement list" where
  "fetched net srcs = concat (map (fetched_from net) srcs)"

definition all_well_formed :: "'w \<Rightarrow> ('w, 'r) announcement_source list \<Rightarrow> bool" where
  "all_well_formed net srcs = list_all (fetch_ok net) srcs"

text \<open>
  The announcements among \<open>items\<close> whose key is not in \<open>L\<close>, each key once, at its first
  occurrence.
\<close>

fun fresh_items :: "ustr set \<Rightarrow> announcement list \<Rightarrow> announcement list" where
  "fresh_items L [] = []"
| "fresh_items L (a # rest) =
     (if item_key a \<in> L then fresh_items L rest
      else a # fresh_items (insert (item_key a) L) rest)"

text \<open>
  The webhook returns a response (of any status) to each of the given requests, the
  first of them being the \<open>n\<close>-th of the process.
\<close>

fun answers :: "(nat \<Rightarrow> announcement \<Rightarrow> error + response) \<Rightarrow> nat \<Rightarrow> announcement list \<Rightarrow> bool" where
  "answers webhook n [] = True"
| "answers webhook n (a # rest) =
     (case webhook n a of Inl e \<Rightarrow> False | Inr r \<Rightarrow> answers webhook (Suc n) rest)"

text \<open>
  What a cycle has to send: nothing during the first run, afterwards the candidates new
  to the ledger.
\<close>

definition to_send :: "bool \<Rightarrow> ustr set \<Rightarrow> date option \<Rightarrow> announcement list \<Rightarrow> announcement list" where
  "to_send first L dbg items =
     (if first then [] else fresh_items L (filter (is_candidate dbg) items))"

subsection \<open>Example inputs\<close>

definition ok_response :: response where
  "ok_response = \<lparr>status_code = 200, resp_text = ascii ''ok'', json = Inl JSONDecodeError, select = []\<rparr>"

definition error_page :: response where
  "error_page =
     \<lparr>status_code = 500, resp_text = ascii ''Internal Server Error'', json = Inl JSONDecodeError,
      select = []\<rparr>"

definition webhook_ok :: "nat \<Rightarrow> announcement \<Rightarrow> error + response" where
  "webhook_ok n item = Inr ok_response"

definition webhook_500 :: "nat \<Rightarrow> announcement \<Rightarrow> error + response" where
  "webhook_500 n item = Inr error_page"

definition row :: "string \<Rightarrow> string \<Rightarrow> string \<Rightarrow> element" where
  "row t h published =
     \<lparr>link = Some \<lparr>a_text = ascii t, href = Some (ascii h)\<rparr>, time_el = Some (ascii published)\<rparr>"

definition page :: "element list \<Rightarrow> response" where
  "page rows = \<lparr>status_code = 200, resp_text = [], json = Inl JSONDecodeError, select = rows\<rparr>"

text \<open>
  A cycle in which the WeixinPay API answers 500 to both requests, the Tencent Cloud page
  lists the given rows and the Yeepay page lists none.
\<close>

definition tencent_only :: "element list \<Rightarrow> network" where
  "tencent_only rows =
     \<lparr>wx_normal = Inr error_page, wx_pinned = Inr error_page,
      tc_page = Inr (page rows), yp_page = Inr (page [])\<rparr>"

definition no_localtime :: "int \<Rightarrow> error + ustr \<times> ustr" where
  "no_localtime t = Inl OverflowError"

definition no_repr :: "pyval \<Rightarrow> ustr" where
  "no_repr v = []"

definition row_a :: element where
  "row_a = row ''Notice A'' ''/announce/detail/101'' ''2025-01-10 09:00:00''"

definition row_b :: element where
  "row_b = row ''Notice B'' ''/announce/detail/102'' ''2025-01-20 10:30:00''"

definition notice_a :: announcement where
  "notice_a =
     \<lparr>title = ascii ''Notice A'', date = ascii ''2025-01-10'', time = ascii ''09:00:00'',
      url = ascii ''https://cloud.tencent.com/announce/detail/101'',
      source = [33150, 35759, 20113]\<rparr>"

definition notice_b :: announcement where
  "notice_b =
     \<lparr>title = ascii ''Notice B'', date = ascii ''2025-01-20'', time = ascii ''10:30:00'',
      url = ascii ''https://cloud.tencent.com/announce/detail/102'',
      source = [33150, 35759, 20113]\<rparr>"

text \<open>
  A cycle in which every request fails to connect.
\<close>

definition outage :: network where
  "outage =
     \<lparr>wx_normal = Inl ConnectionError, wx_pinned = Inl ConnectionError,
      tc_page = Inl ConnectionError, yp_page = Inl ConnectionError\<rparr>"

text \<open>
  The script's monitor after a first cycle in which Tencent Cloud lists notice A alone.
\<close>

definition baseline :: "(network, raw_item) monitor" where
  "baseline = check_updates (tencent_only [row_a]) webhook_ok (main_monitor no_localtime no_repr)"

text \<open>
  An outage during the first turn of the loop, notice A listed from the second on.
\<close>

definition outage_then_a :: "nat \<Rightarrow> network" where
  "outage_then_a i = (if i = 0 then outage else tencent_only [row_a])"

text \<open>
  The raw item Tencent Cloud's source makes of the row of notice B.
\<close>

definition raw_b :: tencent_item where
  "raw_b =
     \<lparr>tc_title = ascii ''Notice B'', announceId = ascii ''102'',
      beginTime = ascii ''2025-01-20 10:30:00''\<rparr>"

text \<open>
  The script's monitor in DEBUG mode with the cutoff 2025-01-15, before its first cycle
  and after a first cycle in which nothing is listed.
\<close>

definition debug_monitor :: "(network, raw_item) monitor" where
  "debug_monitor =
     state_of (set_debug_time (ascii ''2025-01-15'') (main_monitor no_localtime no_repr))"

definition debug_steady :: "(network, raw_item) monitor" where
  "debug_steady = check_updates (tencent_only []) webhook_ok debug_monitor"

text \<open>
  Notices A and B listed in every turn of the loop.
\<close>

definition a_and_b :: "nat \<Rightarrow> network" where
  "a_and_b i = tencent_only [row_a, row_b]"

text \<open>
  Two announcements that differ in where the separator falls between source and title,
  and one whose title contains the separator.
\<close>

definition split_left :: announcement where
  "split_left =
     \<lparr>title = ascii ''c'', date = ascii ''2025-01-01'', time = [], url = [], source = ascii ''a_b''\<rparr>"

definition split_right :: announcement where
  "split_right =
     \<lparr>title = ascii ''b_c'', date = ascii ''2025-01-01'', time = [], url = [], source = ascii ''a''\<rparr>"

definition notice_u :: announcement where
  "notice_u =
     \<lparr>title = ascii ''Notice_A'', date = ascii ''2025-01-10'', time = ascii ''09:00:00'',
      url = ascii ''https://cloud.tencent.com/announce/detail/101'',
      source = [33150, 35759, 20113]\<rparr>"

text \<open>
  A row of the Tencent Cloud page whose time element holds only spaces, and the raw item
  the source makes of it.
\<close>

definition row_blank :: element where
  "row_blank = row ''Notice C'' ''/announce/detail/103'' ''   ''"

definition raw_blank :: tencent_item where
  "raw_blank = \<lparr>tc_title = ascii ''Notice C'', announceId = ascii ''103'', beginTime = []\<rparr>"

text \<open>
  Raw items: one of Tencent Cloud with a date and no time, one of Yeepay with both, and
  one of WeixinPay; \<open>utc_epoch\<close> converts the timestamp 0 alone, as a process in UTC does.
\<close>

definition raw_date_only :: tencent_item where
  "raw_date_only =
     \<lparr>tc_title = ascii ''Notice D'', announceId = ascii ''104'', beginTime = ascii ''2025-01-12''\<rparr>"

definition yeepay_raw :: yeepay_item where
  "yeepay_raw =
     \<lparr>yp_title = ascii ''Notice E'', noticeId = ascii ''7'', pubTime = ascii ''2025-01-13 08:00:00''\<rparr>"

definition weixin_raw :: pyval where
  "weixin_raw =
     PDict [(ascii ''contentId'', PInt 42), (ascii ''contentTitle'', PStr (ascii ''Notice F'')),
            (ascii ''contentPublishTime'', PInt 0)]"

definition utc_epoch :: "int \<Rightarrow> error + ustr \<times> ustr" where
  "utc_epoch t = (if t = 0 then Inr (ascii ''1970-01-01'', ascii ''00:00:00'') else Inl OverflowError)"

text \<open>
  The raw item Tencent Cloud's source makes of the row of notice A.
\<close>

definition raw_a :: tencent_item where
  "raw_a =
     \<lparr>tc_title = ascii ''Notice A'', announceId = ascii ''101'',
      beginTime = ascii ''2025-01-10 09:00:00''\<rparr>"

text \<open>
  A WeixinPay response that lists one item; cycles in which the first WeixinPay response
  is not JSON, and in which the second request fails to connect after the first returned
  a listing.
\<close>

definition weixin_listing :: response where
  "weixin_listing =
     \<lparr>status_code = 200, resp_text = [],
      json = Inr (PDict [(ascii ''errorcode'', PInt 0),
                         (ascii ''data'', PDict [(ascii ''contentlist'', PList [weixin_raw])])]),
      select = []\<rparr>"

definition weixin_malformed :: network where
  "weixin_malformed =
     \<lparr>wx_normal = Inr ok_response, wx_pinned = Inr error_page,
      tc_page = Inr (page []), yp_page = Inr (page [])\<rparr>"

definition weixin_half :: network where
  "weixin_half =
     \<lparr>wx_normal = Inr weixin_listing, wx_pinned = Inl ConnectionError,
      tc_page = Inr (page []), yp_page = Inr (page [])\<rparr>"

text \<open>
  A cycle in which the WeixinPay API answers 500 to both requests and the Tencent Cloud
  and Yeepay pages list the given rows; a row of the Yeepay page and the announcement
  made of it.
\<close>

definition listings :: "element list \<Rightarrow> element list \<Rightarrow> network" where
  "listings tc_rows yp_rows =
     \<lparr>wx_normal = Inr error_page, wx_pinned = Inr error_page,
      tc_page = Inr (page tc_rows), yp_page = Inr (page yp_rows)\<rparr>"

definition row_e :: element where
  "row_e = row ''Notice E'' ''/notice-detail/7'' ''2025-01-13 08:00:00''"

definition notice_e :: announcement where
  "notice_e =
     \<lparr>title = ascii ''Notice E'', date = ascii ''2025-01-13'', time = ascii ''08:00:00'',
      url = ascii ''https://www.yeepay.com/notice-detail/7'',
      source = [26131, 23453, 25903, 20184]\<rparr>"

text \<open>
  A webhook that cannot be reached, and one that cannot be reached for the first request
  of the process only.
\<close>

definition webhook_down :: "nat \<Rightarrow> announcement \<Rightarrow> error + response" where
  "webhook_down n item = Inl ConnectionError"

definition webhook_down_once :: "nat \<Rightarrow> announcement \<Rightarrow> error + response" where
  "webhook_down_once n item = (if n = 0 then Inl ConnectionError else Inr ok_response)"

text \<open>
  A blank row listed before notice B in every turn of the loop.
\<close>

definition blank_before_b :: "nat \<Rightarrow> network" where
  "blank_before_b i = tencent_only [row_blank, row_b]"

section \<open>Lemmas on the poll cycle\<close>

lemma grows_refl: "grows m m"
  by (simp add: grows_def)

lemma grows_trans: "grows m m1 \<Longrightarrow> grows m1 m2 \<Longrightarrow> grows m m2"
  unfolding grows_def by (auto; blast)

lemma grows_print: "grows m (print l m)"
  by (simp add: grows_def print_def)

lemma print_simps:
  "sources (print l m) = sources m" "last_items (print l m) = last_items m"
  "debug_time (print l m) = debug_time m" "is_first_run (print l m) = is_first_run m"
  "posts (print l m) = posts m" "stdout (print l m) = stdout m @ [l]"
  by (simp_all add: print_def)

lemma add_key_simps:
  "sources (add_key k m) = sources m" "last_items (add_key k m) = insert k (last_items m)"
  "debug_time (add_key k m) = debug_time m" "is_first_run (add_key k m) = is_first_run m"
  "posts (add_key k m) = posts m" "stdout (add_key k m) = stdout m"
  by (simp_all add: add_key_def)

lemma check_item_grows: "grows m (state_of (check_item webhook src raw m))"
  by (auto simp: check_item_def send_notification_def grows_def print_simps add_key_simps Let_def is_candidate_def
      split: sum.splits option.splits)

lemma check_item_first_run:
  "is_first_run (state_of (check_item webhook src raw m)) = is_first_run m"
  "is_first_run m \<Longrightarrow> posts (state_of (check_item webhook src raw m)) = posts m"
  by (auto simp: check_item_def send_notification_def print_simps add_key_simps Let_def
      split: sum.splits option.splits)

lemma check_items_grows: "grows m (state_of (check_items webhook src items m))"
proof (induction items arbitrary: m)
  case Nil
  show ?case by (simp add: grows_refl)
next
  case (Cons raw rest)
  show ?case
  proof (cases "check_item webhook src raw m")
    case (Done m1)
    have "grows m m1" using check_item_grows [where m = m and webhook = webhook and src = src and raw = raw] Done by simp
    then show ?thesis using Done Cons.IH [where m = m1] by (auto intro: grows_trans)
  next
    case (Raised e m1)
    then show ?thesis using check_item_grows [where m = m and webhook = webhook and src = src and raw = raw] by simp
  qed
qed

lemma check_items_first_run:
  "is_first_run (state_of (check_items webhook src items m)) = is_first_run m"
  "is_first_run m \<Longrightarrow> posts (state_of (check_items webhook src items m)) = posts m"
proof (induction items arbitrary: m)
  case Nil
  { case 1 show ?case by simp }
  { case 2 show ?case by simp }
next
  case (Cons raw rest)
  { case 1
    show ?case
      using check_item_first_run(1) [where webhook = webhook and src = src and raw = raw and m = m] Cons.IH(1)
      by (cases "check_item webhook src raw m") auto }
  { case 2
    then show ?case
      using check_item_first_run [where webhook = webhook and src = src and raw = raw and m = m] Cons.IH(2)
      by (cases "check_item webhook src raw m") auto }
qed

lemma check_sources_grows: "grows m (state_of (check_sources net webhook srcs m))"
proof (induction srcs arbitrary: m)
  case Nil
  show ?case by (simp add: grows_refl)
next
  case (Cons src rest)
  show ?case
  proof (cases "get_announcements src net")
    case (Inl e)
    then show ?thesis by (simp add: grows_refl)
  next
    case (Inr items)
    let ?m0 = "print (Checking (class_name src) (length items)) m"
    have g0: "grows m (state_of (check_items webhook src items ?m0))"
      using grows_trans [OF grows_print check_items_grows] .
    show ?thesis
    proof (cases "check_items webhook src items ?m0")
      case (Done m1)
      then show ?thesis using Inr g0 Cons.IH [where m = m1] by (auto intro: grows_trans)
    next
      case (Raised e m1)
      then show ?thesis using Inr g0 by simp
    qed
  qed
qed

lemma check_sources_first_run:
  "is_first_run (state_of (check_sources net webhook srcs m)) = is_first_run m"
  "is_first_run m \<Longrightarrow> posts (state_of (check_sources net webhook srcs m)) = posts m"
proof (induction srcs arbitrary: m)
  case Nil
  { case 1 show ?case by simp }
  { case 2 show ?case by simp }
next
  case (Cons src rest)
  { case 1
    show ?case
    proof (cases "get_announcements src net")
      case (Inl e)
      then show ?thesis by simp
    next
      case (Inr items)
      let ?m0 = "print (Checking (class_name src) (length items)) m"
      show ?thesis
        using Inr check_items_first_run(1) [where webhook = webhook and src = src and items = items and m = ?m0] Cons.IH(1)
        by (cases "check_items webhook src items ?m0") (auto simp: print_simps)
    qed }
  { case 2
    show ?case
    proof (cases "get_announcements src net")
      case (Inl e)
      then show ?thesis by simp
    next
      case (Inr items)
      let ?m0 = "print (Checking (class_name src) (length items)) m"
      show ?thesis
        using Inr 2 check_items_first_run [where webhook = webhook and src = src and items = items and m = ?m0] Cons.IH(2)
        by (cases "check_items webhook src items ?m0") (auto simp: print_simps)
    qed }
qed

lemma check_updates_try_grows: "grows m (state_of (check_updates_try net webhook m))"
  using check_sources_grows [where m = m and net = net and webhook = webhook and srcs = "sources m"]
  by (cases "check_sources net webhook (sources m) m")
     (auto simp: check_updates_try_def grows_def print_simps)

lemma check_updates_grows: "grows m (check_updates net webhook m)"
  using check_updates_try_grows [where m = m and net = net and webhook = webhook]
  by (cases "check_updates_try net webhook m")
     (auto simp: check_updates_def grows_def print_simps)

lemma run_grows: "grows m (run nets webhook n m)"
  by (induction n) (auto intro: grows_refl grows_trans check_updates_grows)

lemma check_updates_try_first_run_posts:
  "is_first_run m \<Longrightarrow> posts (state_of (check_updates_try net webhook m)) = posts m"
  using check_sources_first_run(2) [where m = m and net = net and webhook = webhook and srcs = "sources m"]
  by (cases "check_sources net webhook (sources m) m")
     (auto simp: check_updates_try_def print_simps)

lemma check_updates_first_run_posts:
  "is_first_run m \<Longrightarrow> posts (check_updates net webhook m) = posts m"
  using check_updates_try_first_run_posts [where m = m and net = net and webhook = webhook]
  by (cases "check_updates_try net webhook m") (auto simp: check_updates_def print_simps)

lemma check_updates_try_raised_first_run:
  "check_updates_try net webhook m = Raised e m1 \<Longrightarrow> is_first_run m1 = is_first_run m"
  using check_sources_first_run(1) [where m = m and net = net and webhook = webhook and srcs = "sources m"]
  by (cases "check_sources net webhook (sources m) m")
     (auto simp: check_updates_try_def split: if_splits)

lemma check_updates_try_done_first_run:
  "check_updates_try net webhook m = Done m1 \<Longrightarrow> \<not> is_first_run m1"
  by (cases "check_sources net webhook (sources m) m")
     (auto simp: check_updates_try_def split: if_splits)

lemma fresh_items_append:
  "fresh_items L (xs @ ys) = fresh_items L xs @ fresh_items (L \<union> item_key ` set xs) ys"
  by (induction xs arbitrary: L) (auto simp: insert_absorb)

lemma answers_append:
  "answers webhook n (xs @ ys) \<longleftrightarrow> answers webhook n xs \<and> answers webhook (n + length xs) ys"
  by (induction xs arbitrary: n) (auto split: sum.splits)

lemma to_send_append:
  "to_send first L dbg (xs @ ys) =
     to_send first L dbg xs @ to_send first (L \<union> item_key ` set (filter (is_candidate dbg) xs)) dbg ys"
  by (simp add: to_send_def fresh_items_append)

lemma check_item_clean:
  assumes "format_notification src raw = Inr a" "strptime (date a) = Inr d"
    and "answers webhook (length (posts m)) (to_send (is_first_run m) (last_items m) (debug_time m) [a])"
  shows "\<exists>m'. check_item webhook src raw m = Done m' \<and>
           last_items m' = last_items m \<union> item_key ` set (filter (is_candidate (debug_time m)) [a]) \<and>
           posts m' = posts m @ to_send (is_first_run m) (last_items m) (debug_time m) [a] \<and>
           is_first_run m' = is_first_run m \<and> debug_time m' = debug_time m \<and>
           sources m' = sources m"
  using assms
  by (auto simp: check_item_def send_notification_def print_simps add_key_simps Let_def
        is_candidate_def to_send_def insert_absorb
      split: sum.splits option.splits if_splits)

lemma check_items_clean:
  assumes "list_all (well_formed src) items"
    and "answers webhook (length (posts m))
           (to_send (is_first_run m) (last_items m) (debug_time m) (formatted src items))"
  shows "\<exists>m'. check_items webhook src items m = Done m' \<and>
           last_items m' = last_items m \<union>
             item_key ` set (filter (is_candidate (debug_time m)) (formatted src items)) \<and>
           posts m' = posts m @
             to_send (is_first_run m) (last_items m) (debug_time m) (formatted src items) \<and>
           is_first_run m' = is_first_run m \<and> debug_time m' = debug_time m \<and>
           sources m' = sources m"
  using assms
proof (induction items arbitrary: m)
  case Nil
  show ?case by (simp add: to_send_def)
next
  case (Cons raw rest)
  from Cons.prems(1) have wf: "well_formed src raw" and rest: "list_all (well_formed src) rest"
    by simp_all
  from wf obtain a d where
    a: "format_notification src raw = Inr a" and d: "strptime (date a) = Inr d"
    by (auto simp: well_formed_def split: sum.splits)
  let ?f = "is_first_run m" and ?L = "last_items m" and ?dbg = "debug_time m"
  let ?L1 = "?L \<union> item_key ` set (filter (is_candidate ?dbg) [a])"
  have split: "to_send ?f ?L ?dbg (formatted src (raw # rest)) =
                 to_send ?f ?L ?dbg [a] @ to_send ?f ?L1 ?dbg (formatted src rest)"
    using to_send_append [of ?f ?L ?dbg "[a]" "formatted src rest"] a by simp
  have ans: "answers webhook (length (posts m)) (to_send ?f ?L ?dbg [a])"
    and ans_rest: "answers webhook (length (posts m) + length (to_send ?f ?L ?dbg [a]))
                     (to_send ?f ?L1 ?dbg (formatted src rest))"
    using Cons.prems(2) unfolding split answers_append by simp_all
  from check_item_clean [OF a d ans] obtain m1 where
    m1: "check_item webhook src raw m = Done m1" "last_items m1 = ?L1"
      "posts m1 = posts m @ to_send ?f ?L ?dbg [a]"
      "is_first_run m1 = ?f" "debug_time m1 = ?dbg" "sources m1 = sources m"
    by blast
  have "answers webhook (length (posts m1))
          (to_send (is_first_run m1) (last_items m1) (debug_time m1) (formatted src rest))"
    using ans_rest m1 by simp
  from Cons.IH [OF rest this] obtain m2 where
    m2: "check_items webhook src rest m1 = Done m2"
      "last_items m2 = last_items m1 \<union>
         item_key ` set (filter (is_candidate (debug_time m1)) (formatted src rest))"
      "posts m2 = posts m1 @
         to_send (is_first_run m1) (last_items m1) (debug_time m1) (formatted src rest)"
      "is_first_run m2 = is_first_run m1" "debug_time m2 = debug_time m1"
      "sources m2 = sources m1"
    by blast
  show ?case
    using m1 m2 a split by (auto simp: image_Un)
qed

lemma check_sources_clean:
  assumes "all_well_formed net srcs"
    and "answers webhook (length (posts m))
           (to_send (is_first_run m) (last_items m) (debug_time m) (fetched net srcs))"
  shows "\<exists>m'. check_sources net webhook srcs m = Done m' \<and>
           last_items m' = last_items m \<union>
             item_key ` set (filter (is_candidate (debug_time m)) (fetched net srcs)) \<and>
           posts m' = posts m @
             to_send (is_first_run m) (last_items m) (debug_time m) (fetched net srcs) \<and>
           is_first_run m' = is_first_run m \<and> debug_time m' = debug_time m \<and>
           sources m' = sources m"
  using assms
proof (induction srcs arbitrary: m)
  case Nil
  show ?case by (simp add: to_send_def fetched_def)
next
  case (Cons src rest)
  from Cons.prems(1) have ok: "fetch_ok net src" and rest: "all_well_formed net rest"
    by (simp_all add: all_well_formed_def)
  from ok obtain items where
    items: "get_announcements src net = Inr items" and wf: "list_all (well_formed src) items"
    by (auto simp: fetch_ok_def split: sum.splits)
  let ?f = "is_first_run m" and ?L = "last_items m" and ?dbg = "debug_time m"
  let ?here = "formatted src items"
  let ?L1 = "?L \<union> item_key ` set (filter (is_candidate ?dbg) ?here)"
  let ?m0 = "print (Checking (class_name src) (length items)) m"
  have fetched: "fetched net (src # rest) = ?here @ fetched net rest"
    using items by (simp add: fetched_def fetched_from_def)
  have split: "to_send ?f ?L ?dbg (fetched net (src # rest)) =
                 to_send ?f ?L ?dbg ?here @ to_send ?f ?L1 ?dbg (fetched net rest)"
    unfolding fetched by (rule to_send_append)
  have ans: "answers webhook (length (posts ?m0))
               (to_send (is_first_run ?m0) (last_items ?m0) (debug_time ?m0) ?here)"
    and ans_rest: "answers webhook (length (posts m) + length (to_send ?f ?L ?dbg ?here))
                     (to_send ?f ?L1 ?dbg (fetched net rest))"
    using Cons.prems(2) unfolding split answers_append by (simp_all add: print_simps)
  from check_items_clean [OF wf ans] obtain m1 where
    m1: "check_items webhook src items ?m0 = Done m1" "last_items m1 = ?L1"
      "posts m1 = posts m @ to_send ?f ?L ?dbg ?here"
      "is_first_run m1 = ?f" "debug_time m1 = ?dbg" "sources m1 = sources m"
    by (auto simp: print_simps)
  have "answers webhook (length (posts m1))
          (to_send (is_first_run m1) (last_items m1) (debug_time m1) (fetched net rest))"
    using ans_rest m1 by simp
  from Cons.IH [OF rest this] obtain m2 where
    m2: "check_sources net webhook rest m1 = Done m2"
      "last_items m2 = last_items m1 \<union>
         item_key ` set (filter (is_candidate (debug_time m1)) (fetched net rest))"
      "posts m2 = posts m1 @
         to_send (is_first_run m1) (last_items m1) (debug_time m1) (fetched net rest)"
      "is_first_run m2 = is_first_run m1" "debug_time m2 = debug_time m1"
      "sources m2 = sources m1"
    by blast
  show ?case
    using m1 m2 items split fetched by (auto simp: image_Un)
qed

lemma check_updates_clean:
  assumes "all_well_formed net (sources m)"
    and "answers webhook (length (posts m))
           (to_send (is_first_run m) (last_items m) (debug_time m) (fetched net (sources m)))"
  shows "\<exists>m'. check_updates_try net webhook m = Done m' \<and> check_updates net webhook m = m' \<and>
           last_items m' = last_items m \<union>
             item_key ` set (filter (is_candidate (debug_time m)) (fetched net (sources m))) \<and>
           posts m' = posts m @
             to_send (is_first_run m) (last_items m) (debug_time m) (fetched net (sources m)) \<and>
           \<not> is_first_run m' \<and> debug_time m' = debug_time m \<and> sources m' = sources m"
proof -
  from check_sources_clean [OF assms] obtain m1 where
    m1: "check_sources net webhook (sources m) m = Done m1"
      "last_items m1 = last_items m \<union>
         item_key ` set (filter (is_candidate (debug_time m)) (fetched net (sources m)))"
      "posts m1 = posts m @
         to_send (is_first_run m) (last_items m) (debug_time m) (fetched net (sources m))"
      "is_first_run m1 = is_first_run m" "debug_time m1 = debug_time m"
      "sources m1 = sources m"
    by blast
  then show ?thesis
    by (auto simp: check_updates_try_def check_updates_def print_simps)
qed

lemma check_item_known:
  assumes "\<forall>a. format_notification src raw = Inr a \<and> is_candidate (debug_time m) a
             \<longrightarrow> item_key a \<in> last_items m"
  shows "last_items (state_of (check_item webhook src raw m)) = last_items m \<and>
         posts (state_of (check_item webhook src raw m)) = posts m \<and>
         debug_time (state_of (check_item webhook src raw m)) = debug_time m"
  using assms
  by (auto simp: check_item_def print_simps add_key_simps Let_def insert_absorb is_candidate_def
      split: sum.splits option.splits)

lemma check_items_known:
  assumes "item_key ` set (filter (is_candidate (debug_time m)) (formatted src items))
             \<subseteq> last_items m"
  shows "last_items (state_of (check_items webhook src items m)) = last_items m \<and>
         posts (state_of (check_items webhook src items m)) = posts m \<and>
         debug_time (state_of (check_items webhook src items m)) = debug_time m"
  using assms
proof (induction items arbitrary: m)
  case Nil
  show ?case by simp
next
  case (Cons raw rest)
  have known: "\<forall>a. format_notification src raw = Inr a \<and> is_candidate (debug_time m) a
                 \<longrightarrow> item_key a \<in> last_items m"
    using Cons.prems by auto
  have rest: "item_key ` set (filter (is_candidate (debug_time m)) (formatted src rest))
                \<subseteq> last_items m"
    using Cons.prems by (auto split: sum.splits)
  note step = check_item_known [where webhook = webhook, OF known]
  show ?case
  proof (cases "check_item webhook src raw m")
    case (Done m1)
    then have "last_items m1 = last_items m" "posts m1 = posts m" "debug_time m1 = debug_time m"
      using step by auto
    then show ?thesis using Done Cons.IH [of m1] rest by simp
  next
    case (Raised e m1)
    then show ?thesis using step by auto
  qed
qed

lemma check_sources_known:
  assumes "item_key ` set (filter (is_candidate (debug_time m)) (fetched net srcs))
             \<subseteq> last_items m"
  shows "last_items (state_of (check_sources net webhook srcs m)) = last_items m \<and>
         posts (state_of (check_sources net webhook srcs m)) = posts m \<and>
         debug_time (state_of (check_sources net webhook srcs m)) = debug_time m"
  using assms
proof (induction srcs arbitrary: m)
  case Nil
  show ?case by simp
next
  case (Cons src rest)
  show ?case
  proof (cases "get_announcements src net")
    case (Inl e)
    then show ?thesis by simp
  next
    case (Inr items)
    let ?m0 = "print (Checking (class_name src) (length items)) m"
    have here: "item_key ` set (filter (is_candidate (debug_time ?m0)) (formatted src items))
                  \<subseteq> last_items ?m0"
      and rest: "item_key ` set (filter (is_candidate (debug_time m)) (fetched net rest))
                   \<subseteq> last_items m"
      using Cons.prems Inr by (auto simp: fetched_def fetched_from_def print_simps)
    note step = check_items_known [where webhook = webhook, OF here]
    show ?thesis
    proof (cases "check_items webhook src items ?m0")
      case (Done m1)
      then have "last_items m1 = last_items m" "posts m1 = posts m" "debug_time m1 = debug_time m"
        using step by (auto simp: print_simps)
      then show ?thesis using Done Inr Cons.IH [of m1] rest by simp
    next
      case (Raised e m1)
      then show ?thesis using step Inr by (auto simp: print_simps)
    qed
  qed
qed

lemma check_updates_first_run_iff:
  "is_first_run (check_updates net webhook m) \<longleftrightarrow>
     is_first_run m \<and> (\<exists>e m1. check_updates_try net webhook m = Raised e m1)"
  using check_updates_try_raised_first_run [where net = net and webhook = webhook and m = m]
    check_updates_try_done_first_run [where net = net and webhook = webhook and m = m]
  by (cases "check_updates_try net webhook m") (auto simp: check_updates_def print_simps)

lemma run_first_run_iff:
  "is_first_run (run nets webhook n m) \<longleftrightarrow>
     is_first_run m \<and>
     (\<forall>i<n. \<exists>e m1. check_updates_try (nets i) webhook (run nets webhook i m) = Raised e m1)"
  by (induction n) (auto simp: check_updates_first_run_iff less_Suc_eq)

lemma run_first_run_posts:
  "is_first_run (run nets webhook n m) \<Longrightarrow> posts (run nets webhook n m) = posts m"
  by (induction n) (auto simp: check_updates_first_run_iff check_updates_first_run_posts)

lemma fresh_items_known: "item_key ` set xs \<subseteq> L \<Longrightarrow> fresh_items L xs = []"
  by (induction xs arbitrary: L) auto

lemma fresh_items_one:
  assumes "item_key ` set xs \<subseteq> L" "item_key ` set ys \<subseteq> L" "item_key a \<notin> L"
  shows "fresh_items L (xs @ [a] @ ys) = [a]"
proof -
  have "fresh_items (insert (item_key a) (L \<union> item_key ` set xs)) ys = []"
    using assms(2) by (intro fresh_items_known) auto
  moreover have "item_key a \<notin> L \<union> item_key ` set xs" using assms(1,3) by auto
  ultimately show ?thesis
    using fresh_items_known [OF assms(1)] by (simp add: fresh_items_append)
qed

lemma fresh_items_count:
  "length (filter (\<lambda>b. item_key b = k) (fresh_items L xs)) =
     (if k \<notin> L \<and> k \<in> item_key ` set xs then 1 else 0)"
proof (induction xs arbitrary: L)
  case Nil
  show ?case by simp
next
  case (Cons x xs)
  show ?case
  proof (cases "item_key x \<in> L")
    case True
    then show ?thesis using Cons.IH [of L] by auto
  next
    case False
    then show ?thesis using Cons.IH [of "insert (item_key x) L"] by auto
  qed
qed

lemma grows_no_repost:
  assumes "grows m m'" "k \<in> last_items m"
  shows "\<forall>b \<in> set (drop (length (posts m)) (posts m')). item_key b \<noteq> k"
  using assms by (auto simp: grows_def)

lemma grows_candidates:
  assumes "grows m m'"
  shows "\<forall>b \<in> set (drop (length (posts m)) (posts m')). is_candidate (debug_time m) b"
  using assms by (auto simp: grows_def)

lemma run_Suc_first:
  "run nets webhook (Suc n) m =
     run (\<lambda>i. nets (Suc i)) webhook n (check_updates (nets 0) webhook m)"
  by (induction n) simp_all

lemma first_separator:
  assumes "x \<notin> set xs" "x \<notin> set ys" "xs @ x # r = ys @ x # r'"
  shows "xs = ys \<and> r = r'"
  using assms
proof (induction xs arbitrary: ys)
  case Nil
  then show ?case by (cases ys) auto
next
  case (Cons c xs)
  then show ?case by (cases ys) auto
qed

lemma last_separator:
  assumes "x \<notin> set d" "x \<notin> set d'" "t @ x # d = t' @ x # d'"
  shows "t = t' \<and> d = d'"
proof -
  have "rev d @ x # rev t = rev d' @ x # rev t'"
    using arg_cong [OF assms(3), of rev] by simp
  then have "rev d = rev d' \<and> rev t = rev t'"
    using assms(1,2) by (intro first_separator) auto
  then show ?thesis by simp
qed

lemma not_digit_separator [simp]: "\<not> is_digit 95"
  by (simp add: is_digit_def digit_zero_def digit_zeros_def)

lemma match_month_chars:
  "match_month s = Some (m, r) \<Longrightarrow> 95 \<notin> set s - set r \<and> set r \<subseteq> set s"
  by (cases s rule: match_month.cases) (auto split: if_splits)

lemma match_day_chars:
  "match_day s = Some (m, r) \<Longrightarrow> 95 \<notin> set s - set r \<and> set r \<subseteq> set s"
  by (cases s rule: match_day.cases) (auto split: if_splits)

lemma strptime_no_separator:
  assumes "strptime s = Inr d"
  shows "95 \<notin> set s"
proof -
  obtain y1 y2 y3 y4 rest where s: "s = y1 # y2 # y3 # y4 # 45 # rest"
    and dig: "is_digit y1" "is_digit y2" "is_digit y3" "is_digit y4"
    using assms by (cases s rule: strptime.cases) (auto split: if_splits)
  obtain m rest1 where mm: "match_month rest = Some (m, rest1)"
    using assms s dig by (auto split: option.splits)
  obtain rest2 where r1: "rest1 = 45 # rest2"
    using assms s dig mm by (auto split: list.splits if_splits)
  obtain dd where md: "match_day rest2 = Some (dd, [])"
    using assms s dig mm r1 by (auto simp: Let_def split: option.splits if_splits)
  have "95 \<notin> set rest2" using match_day_chars [OF md] by simp
  then have "95 \<notin> set rest" using match_month_chars [OF mm] r1 by auto
  then show ?thesis using s dig by auto
qed

lemma tencent_never_raises: "\<exists>items. TencentCloudSource_get_announcements net = Inr items"
  by (simp add: TencentCloudSource_get_announcements_def split: sum.splits)

lemma yeepay_never_raises: "\<exists>items. YeepaySource_get_announcements net = Inr items"
  by (simp add: YeepaySource_get_announcements_def split: sum.splits)

lemma weixin_first_rejected:
  assumes "wx_normal net = Inr r1" "status_code r1 \<noteq> 200" "wx_pinned net = Inr r2"
  shows "WeixinPaySource_get_announcements net = contentlist_of r2"
  using assms
  by (simp add: WeixinPaySource_get_announcements_def contentlist_of_def split: sum.splits)

lemma check_items_append:
  "check_items webhook src (xs @ ys) m =
     (case check_items webhook src xs m of
        Raised e m1 \<Rightarrow> Raised e m1
      | Done m1 \<Rightarrow> check_items webhook src ys m1)"
  by (induction xs arbitrary: m) (auto split: outcome.splits)

lemma check_sources_append:
  "check_sources net webhook (xs @ ys) m =
     (case check_sources net webhook xs m of
        Raised e m1 \<Rightarrow> Raised e m1
      | Done m1 \<Rightarrow> check_sources net webhook ys m1)"
  by (induction xs arbitrary: m) (auto split: outcome.splits sum.splits)

lemma fresh_items_keys:
  "L \<union> item_key ` set (fresh_items L xs) = L \<union> item_key ` set xs"
proof (induction xs arbitrary: L)
  case Nil
  show ?case by simp
next
  case (Cons x xs)
  show ?case
  proof (cases "item_key x \<in> L")
    case True
    then show ?thesis using Cons.IH [of L] by auto
  next
    case False
    then show ?thesis using Cons.IH [of "insert (item_key x) L"] by auto
  qed
qed

lemma to_send_keys:
  "\<not> first \<Longrightarrow>
     L \<union> item_key ` set (to_send first L dbg xs) = L \<union> item_key ` set (filter (is_candidate dbg) xs)"
  by (simp add: to_send_def fresh_items_keys)

lemma to_send_single: "to_send first L dbg [a] = [] \<or> to_send first L dbg [a] = [a]"
  by (simp add: to_send_def)

lemma check_item_raises:
  assumes "format_notification src raw = Inr a" "strptime (date a) = Inr d"
    and "to_send (is_first_run m) (last_items m) (debug_time m) [a] = [a]"
    and "webhook (length (posts m)) a = Inl e"
  shows "\<exists>m'. check_item webhook src raw m = Raised e m' \<and>
           last_items m' = last_items m \<and> posts m' = posts m @ [a] \<and>
           is_first_run m' = is_first_run m \<and> debug_time m' = debug_time m \<and>
           sources m' = sources m"
  using assms
  by (auto simp: check_item_def send_notification_def print_simps add_key_simps Let_def
        is_candidate_def to_send_def
      split: sum.splits option.splits if_splits)

lemma check_items_raises:
  assumes "list_all (well_formed src) items"
    and "to_send (is_first_run m) (last_items m) (debug_time m) (formatted src items)
           = ps1 @ b # ps2"
    and "answers webhook (length (posts m)) ps1"
    and "webhook (length (posts m) + length ps1) b = Inl e"
  shows "\<exists>m'. check_items webhook src items m = Raised e m' \<and>
           last_items m' = last_items m \<union> item_key ` set ps1 \<and>
           posts m' = posts m @ ps1 @ [b] \<and>
           is_first_run m' = is_first_run m \<and> debug_time m' = debug_time m \<and>
           sources m' = sources m"
  using assms
proof (induction items arbitrary: m ps1)
  case Nil
  then show ?case by (simp add: to_send_def split: if_splits)
next
  case (Cons raw rest)
  from Cons.prems(1) have wf: "well_formed src raw" and rest: "list_all (well_formed src) rest"
    by simp_all
  from wf obtain a d where
    a: "format_notification src raw = Inr a" and d: "strptime (date a) = Inr d"
    by (auto simp: well_formed_def split: sum.splits)
  let ?f = "is_first_run m" and ?L = "last_items m" and ?dbg = "debug_time m"
  let ?L1 = "?L \<union> item_key ` set (filter (is_candidate ?dbg) [a])"
  have steady: "\<not> ?f"
    using Cons.prems(2) by (auto simp: to_send_def split: if_splits)
  have split: "to_send ?f ?L ?dbg [a] @ to_send ?f ?L1 ?dbg (formatted src rest) = ps1 @ b # ps2"
    using to_send_append [of ?f ?L ?dbg "[a]" "formatted src rest"] a Cons.prems(2) by simp
  have L1: "?L1 = ?L \<union> item_key ` set (to_send ?f ?L ?dbg [a])"
    using to_send_keys [OF steady, of ?L ?dbg "[a]"] by simp
  consider (skip) "to_send ?f ?L ?dbg [a] = []"
    | (here) "to_send ?f ?L ?dbg [a] = [a]" "ps1 = []"
    | (later) ps1' where "to_send ?f ?L ?dbg [a] = [a]" "ps1 = a # ps1'"
    using to_send_single [of ?f ?L ?dbg a] split by (cases ps1) auto
  then show ?case
  proof cases
    case skip
    have ans: "answers webhook (length (posts m)) (to_send ?f ?L ?dbg [a])"
      using skip by simp
    from check_item_clean [OF a d ans] obtain m1 where
      m1: "check_item webhook src raw m = Done m1" "last_items m1 = ?L1"
        "posts m1 = posts m @ to_send ?f ?L ?dbg [a]"
        "is_first_run m1 = ?f" "debug_time m1 = ?dbg" "sources m1 = sources m"
      by blast
    have same: "last_items m1 = ?L" "posts m1 = posts m"
      using m1(2,3) L1 skip by simp_all
    have "to_send (is_first_run m1) (last_items m1) (debug_time m1) (formatted src rest)
            = ps1 @ b # ps2"
      using split skip m1 same L1 by simp
    moreover have "answers webhook (length (posts m1)) ps1"
      "webhook (length (posts m1) + length ps1) b = Inl e"
      using Cons.prems(3,4) same by simp_all
    ultimately obtain m2 where
      "check_items webhook src rest m1 = Raised e m2"
      "last_items m2 = last_items m1 \<union> item_key ` set ps1"
      "posts m2 = posts m1 @ ps1 @ [b]"
      "is_first_run m2 = is_first_run m1" "debug_time m2 = debug_time m1"
      "sources m2 = sources m1"
      using Cons.IH [OF rest, of m1 ps1] by blast
    then show ?thesis using m1 same by simp
  next
    case here
    have b: "b = a" using split here by simp
    have wh: "webhook (length (posts m)) a = Inl e"
      using Cons.prems(4) here(2) b by simp
    from check_item_raises [where webhook = webhook, OF a d here(1) wh] obtain m1 where
      "check_item webhook src raw m = Raised e m1"
      "last_items m1 = ?L" "posts m1 = posts m @ [a]"
      "is_first_run m1 = ?f" "debug_time m1 = ?dbg" "sources m1 = sources m"
      by blast
    then show ?thesis using here(2) b by simp
  next
    case later
    have ans: "answers webhook (length (posts m)) (to_send ?f ?L ?dbg [a])"
      using later Cons.prems(3) by (simp split: sum.splits)
    from check_item_clean [OF a d ans] obtain m1 where
      m1: "check_item webhook src raw m = Done m1" "last_items m1 = ?L1"
        "posts m1 = posts m @ to_send ?f ?L ?dbg [a]"
        "is_first_run m1 = ?f" "debug_time m1 = ?dbg" "sources m1 = sources m"
      by blast
    have send: "to_send (is_first_run m1) (last_items m1) (debug_time m1) (formatted src rest)
            = ps1' @ b # ps2"
      using split later m1 by simp
    have ans': "answers webhook (length (posts m1)) ps1'"
      using Cons.prems(3) later m1 by (simp split: sum.splits)
    have raise': "webhook (length (posts m1) + length ps1') b = Inl e"
      using Cons.prems(4) later m1 by simp
    from Cons.IH [OF rest send ans' raise'] obtain m2 where
      "check_items webhook src rest m1 = Raised e m2"
      "last_items m2 = last_items m1 \<union> item_key ` set ps1'"
      "posts m2 = posts m1 @ ps1' @ [b]"
      "is_first_run m2 = is_first_run m1" "debug_time m2 = debug_time m1"
      "sources m2 = sources m1"
      by blast
    then show ?thesis using m1 later L1 by auto
  qed
qed

lemma check_sources_raises:
  assumes "all_well_formed net srcs"
    and "to_send (is_first_run m) (last_items m) (debug_time m) (fetched net srcs)
           = ps1 @ b # ps2"
    and "answers webhook (length (posts m)) ps1"
    and "webhook (length (posts m) + length ps1) b = Inl e"
  shows "\<exists>m'. check_sources net webhook srcs m = Raised e m' \<and>
           last_items m' = last_items m \<union> item_key ` set ps1 \<and>
           posts m' = posts m @ ps1 @ [b] \<and>
           is_first_run m' = is_first_run m \<and> debug_time m' = debug_time m \<and>
           sources m' = sources m"
  using assms
proof (induction srcs arbitrary: m ps1)
  case Nil
  then show ?case by (simp add: to_send_def fetched_def split: if_splits)
next
  case (Cons src rest)
  from Cons.prems(1) have ok: "fetch_ok net src" and rest: "all_well_formed net rest"
    by (simp_all add: all_well_formed_def)
  from ok obtain items where
    items: "get_announcements src net = Inr items" and wf: "list_all (well_formed src) items"
    by (auto simp: fetch_ok_def split: sum.splits)
  let ?f = "is_first_run m" and ?L = "last_items m" and ?dbg = "debug_time m"
  let ?here = "formatted src items"
  let ?L1 = "?L \<union> item_key ` set (filter (is_candidate ?dbg) ?here)"
  let ?m0 = "print (Checking (class_name src) (length items)) m"
  let ?h = "to_send ?f ?L ?dbg ?here"
  have steady: "\<not> ?f"
    using Cons.prems(2) by (auto simp: to_send_def split: if_splits)
  have fetched: "fetched net (src # rest) = ?here @ fetched net rest"
    using items by (simp add: fetched_def fetched_from_def)
  have split: "?h @ to_send ?f ?L1 ?dbg (fetched net rest) = ps1 @ b # ps2"
    using Cons.prems(2) unfolding fetched to_send_append by simp
  have L1: "?L1 = ?L \<union> item_key ` set ?h"
    using to_send_keys [OF steady, of ?L ?dbg ?here] by simp
  from split consider (here) us where "?h = ps1 @ b # us"
    | (later) us where "ps1 = ?h @ us" "to_send ?f ?L1 ?dbg (fetched net rest) = us @ b # ps2"
  proof -
    assume a1: "\<And>us. ?h = ps1 @ b # us \<Longrightarrow> thesis"
      and a2: "\<And>us. ps1 = ?h @ us \<Longrightarrow>
                 to_send ?f ?L1 ?dbg (fetched net rest) = us @ b # ps2 \<Longrightarrow> thesis"
    from split obtain us where
      "(?h = ps1 @ us \<and> us @ to_send ?f ?L1 ?dbg (fetched net rest) = b # ps2) \<or>
       (?h @ us = ps1 \<and> to_send ?f ?L1 ?dbg (fetched net rest) = us @ b # ps2)"
      unfolding append_eq_append_conv2 by blast
    then show thesis
    proof (elim disjE conjE)
      assume h: "?h = ps1 @ us" and u: "us @ to_send ?f ?L1 ?dbg (fetched net rest) = b # ps2"
      show thesis
      proof (cases us)
        case Nil
        then show ?thesis using a2 [of "[]"] h u by simp
      next
        case (Cons u us')
        then show ?thesis using a1 [of us'] h u by simp
      qed
    next
      assume "?h @ us = ps1" "to_send ?f ?L1 ?dbg (fetched net rest) = us @ b # ps2"
      then show thesis using a2 [of us] by simp
    qed
  qed
  then show ?case
  proof cases
    case here
    have send: "to_send (is_first_run ?m0) (last_items ?m0) (debug_time ?m0) ?here = ps1 @ b # us"
      using here by (simp add: print_simps)
    have ans: "answers webhook (length (posts ?m0)) ps1"
      and wh: "webhook (length (posts ?m0) + length ps1) b = Inl e"
      using Cons.prems(3,4) by (simp_all add: print_simps)
    from check_items_raises [where webhook = webhook, OF wf send ans wh] obtain m1 where
      "check_items webhook src items ?m0 = Raised e m1"
      "last_items m1 = ?L \<union> item_key ` set ps1" "posts m1 = posts m @ ps1 @ [b]"
      "is_first_run m1 = ?f" "debug_time m1 = ?dbg" "sources m1 = sources m"
      by (auto simp: print_simps)
    then show ?thesis using items by simp
  next
    case later
    have ans: "answers webhook (length (posts ?m0))
                 (to_send (is_first_run ?m0) (last_items ?m0) (debug_time ?m0) ?here)"
      and ans': "answers webhook (length (posts m) + length ?h) us"
      using Cons.prems(3) later(1) by (simp_all add: print_simps answers_append)
    from check_items_clean [OF wf ans] obtain m1 where
      m1: "check_items webhook src items ?m0 = Done m1" "last_items m1 = ?L1"
        "posts m1 = posts m @ ?h"
        "is_first_run m1 = ?f" "debug_time m1 = ?dbg" "sources m1 = sources m"
      by (auto simp: print_simps)
    have send: "to_send (is_first_run m1) (last_items m1) (debug_time m1) (fetched net rest)
                  = us @ b # ps2"
      using later(2) m1 by simp
    have ans1: "answers webhook (length (posts m1)) us"
      using ans' m1 by simp
    have wh1: "webhook (length (posts m1) + length us) b = Inl e"
      using Cons.prems(4) later(1) m1 by (simp add: add.assoc)
    from Cons.IH [OF rest send ans1 wh1] obtain m2 where
      "check_sources net webhook rest m1 = Raised e m2"
      "last_items m2 = last_items m1 \<union> item_key ` set us"
      "posts m2 = posts m1 @ us @ [b]"
      "is_first_run m2 = is_first_run m1" "debug_time m2 = debug_time m1"
      "sources m2 = sources m1"
      by blast
    then show ?thesis using m1 items later(1) L1 by auto
  qed
qed

lemma check_updates_raises:
  assumes "all_well_formed net (sources m)"
    and "to_send (is_first_run m) (last_items m) (debug_time m) (fetched net (sources m))
           = ps1 @ b # ps2"
    and "answers webhook (length (posts m)) ps1"
    and "webhook (length (posts m) + length ps1) b = Inl e"
  shows "\<exists>m'. check_updates_try net webhook m = Raised e m' \<and>
           check_updates net webhook m = print (CheckError e) m' \<and>
           last_items m' = last_items m \<union> item_key ` set ps1 \<and>
           posts m' = posts m @ ps1 @ [b] \<and>
           is_first_run m' = is_first_run m \<and> debug_time m' = debug_time m \<and>
           sources m' = sources m"
proof -
  from check_sources_raises [where webhook = webhook, OF assms] obtain m1 where
    "check_sources net webhook (sources m) m = Raised e m1"
    "last_items m1 = last_items m \<union> item_key ` set ps1"
    "posts m1 = posts m @ ps1 @ [b]"
    "is_first_run m1 = is_first_run m" "debug_time m1 = debug_time m" "sources m1 = sources m"
    by blast
  then show ?thesis
    by (simp add: check_updates_try_def check_updates_def)
qed

lemma check_item_done:
  "check_item webhook src raw m = Done m' \<Longrightarrow> well_formed src raw"
  by (auto simp: check_item_def well_formed_def split: sum.splits)

lemma check_items_done:
  "check_items webhook src items m = Done m' \<Longrightarrow> list_all (well_formed src) items"
proof (induction items arbitrary: m)
  case Nil
  show ?case by simp
next
  case (Cons raw rest)
  then show ?case
    by (cases "check_item webhook src raw m") (auto dest: check_item_done)
qed

lemma check_sources_done:
  "check_sources net webhook srcs m = Done m' \<Longrightarrow> all_well_formed net srcs"
proof (induction srcs arbitrary: m)
  case Nil
  show ?case by (simp add: all_well_formed_def)
next
  case (Cons src rest)
  show ?case
  proof (cases "get_announcements src net")
    case (Inl e)
    then show ?thesis using Cons.prems by simp
  next
    case (Inr items)
    let ?m0 = "print (Checking (class_name src) (length items)) m"
    show ?thesis
    proof (cases "check_items webhook src items ?m0")
      case (Done m1)
      then have "list_all (well_formed src) items" by (rule check_items_done)
      moreover have "all_well_formed net rest"
        using Cons.prems Inr Done Cons.IH [of m1] by simp
      ultimately show ?thesis using Inr by (simp add: all_well_formed_def fetch_ok_def)
    next
      case (Raised e m1)
      then show ?thesis using Cons.prems Inr by simp
    qed
  qed
qed

lemma check_updates_try_done:
  "check_updates_try net webhook m = Done m' \<Longrightarrow> all_well_formed net (sources m)"
  by (cases "check_sources net webhook (sources m) m")
     (auto simp: check_updates_try_def dest: check_sources_done)

lemma run_frame:
  "sources (run nets webhook n m) = sources m" "debug_time (run nets webhook n m) = debug_time m"
  using run_grows [of m nets webhook n] by (simp_all add: grows_def)

lemma first_complete_cycle:
  assumes "is_first_run m" and "check_updates_try net webhook m = Done m1"
  shows "last_items (check_updates net webhook m) =
           last_items m \<union> item_key ` set (filter (is_candidate (debug_time m)) (fetched net (sources m)))"
proof -
  have wf: "all_well_formed net (sources m)"
    using assms(2) by (rule check_updates_try_done)
  have ans: "answers webhook (length (posts m))
               (to_send (is_first_run m) (last_items m) (debug_time m) (fetched net (sources m)))"
    using assms(1) by (simp add: to_send_def)
  from check_updates_clean [OF wf ans] show ?thesis by auto
qed

lemma run_2: "run nets webhook 2 m = check_updates (nets 1) webhook (check_updates (nets 0) webhook m)"
  by (simp add: numeral_2_eq_2)

lemma run_3:
  "run nets webhook 3 m =
     check_updates (nets 2) webhook
       (check_updates (nets 1) webhook (check_updates (nets 0) webhook m))"
  by (simp add: numeral_3_eq_3 numeral_2_eq_2)

section \<open>The examples, evaluated\<close>

lemma strip_examples:
  "strip (ascii ''Notice A'') = ascii ''Notice A''"
  "strip (ascii ''Notice B'') = ascii ''Notice B''"
  "strip (ascii ''2025-01-10 09:00:00'') = ascii ''2025-01-10 09:00:00''"
  "strip (ascii ''2025-01-20 10:30:00'') = ascii ''2025-01-20 10:30:00''"
  by (simp_all add: strip_def ascii_def isspace_def)

lemma split_examples:
  "last (split_on 47 (ascii ''/announce/detail/101'')) = ascii ''101''"
  "last (split_on 47 (ascii ''/announce/detail/102'')) = ascii ''102''"
  "split_ws (ascii ''2025-01-10 09:00:00'') = [ascii ''2025-01-10'', ascii ''09:00:00'']"
  "split_ws (ascii ''2025-01-20 10:30:00'') = [ascii ''2025-01-20'', ascii ''10:30:00'']"
  by (simp_all add: split_on_def split_ws_def ascii_def isspace_def)

lemma strptime_examples:
  "strptime (ascii ''2025-01-10'') = Inr (Date 2025 1 10)"
  "strptime (ascii ''2025-01-15'') = Inr (Date 2025 1 15)"
  "strptime (ascii ''2025-01-20'') = Inr (Date 2025 1 20)"
  by (simp_all add: ascii_def is_digit_def digit_val_def digit_zero_def digit_zeros_def
      days_in_month_def)

lemma tencent_rows:
  "tencent_parse row_a = Inr (Some \<lparr>tc_title = ascii ''Notice A'', announceId = ascii ''101'', beginTime = ascii ''2025-01-10 09:00:00''\<rparr>)"
  "tencent_parse row_b = Inr (Some \<lparr>tc_title = ascii ''Notice B'', announceId = ascii ''102'', beginTime = ascii ''2025-01-20 10:30:00''\<rparr>)"
  by (simp_all add: tencent_parse_def row_a_def row_b_def row_def strip_examples split_examples)

lemma tencent_formats:
  "TencentCloudSource_format_notification \<lparr>tc_title = ascii ''Notice A'', announceId = ascii ''101'', beginTime = ascii ''2025-01-10 09:00:00''\<rparr> = Inr notice_a"
  "TencentCloudSource_format_notification \<lparr>tc_title = ascii ''Notice B'', announceId = ascii ''102'', beginTime = ascii ''2025-01-20 10:30:00''\<rparr> = Inr notice_b"
  by (simp_all add: TencentCloudSource_format_notification_def split_examples notice_a_def notice_b_def)
    (simp_all add: ascii_def)


lemma main_monitor_fields:
  "sources (main_monitor lt rp) = [WeixinPaySource lt rp, TencentCloudSource, YeepaySource]"
  "last_items (main_monitor lt rp) = {}"
  "debug_time (main_monitor lt rp) = None"
  "is_first_run (main_monitor lt rp)"
  "posts (main_monitor lt rp) = []"
  "stdout (main_monitor lt rp) = []"
  by (simp_all add: main_monitor_def add_source_def AnnouncementMonitor_init_def)

lemma tencent_only_fetch:
  "get_announcements (WeixinPaySource lt rp) (tencent_only rows) = Inr []"
  "get_announcements TencentCloudSource (tencent_only rows) = Inr (map TencentCloudItem (tencent_items rows))"
  "get_announcements YeepaySource (tencent_only rows) = Inr []"
  by (simp_all add: WeixinPaySource_def TencentCloudSource_def YeepaySource_def
      WeixinPaySource_get_announcements_def contentlist_of_def
      TencentCloudSource_get_announcements_def TencentCloudSource_try_def
      YeepaySource_get_announcements_def YeepaySource_try_def
      tencent_only_def page_def error_page_def)

lemma tencent_format:
  "format_notification TencentCloudSource (TencentCloudItem item) = TencentCloudSource_format_notification item"
  by (simp add: TencentCloudSource_def)

lemma key_examples:
  "item_key notice_a = [33150, 35759, 20113] @ ascii ''_Notice A_2025-01-10''"
  "item_key notice_b = [33150, 35759, 20113] @ ascii ''_Notice B_2025-01-20''"
  by (simp_all add: item_key_def notice_a_def notice_b_def ascii_def)

lemma notice_dates:
  "date notice_a = ascii ''2025-01-10''" "date notice_b = ascii ''2025-01-20''"
  by (simp_all add: notice_a_def notice_b_def)

lemma fetched_example:
  "fetched (tencent_only [row_a, row_b]) [WeixinPaySource lt rp, TencentCloudSource, YeepaySource]
     = [notice_a, notice_b]"
  by (simp add: fetched_def fetched_from_def tencent_only_fetch tencent_rows
      tencent_format tencent_formats)

lemma well_formed_example:
  "all_well_formed (tencent_only [row_a, row_b])
     [WeixinPaySource lt rp, TencentCloudSource, YeepaySource]"
  by (simp add: all_well_formed_def fetch_ok_def well_formed_def
      tencent_only_fetch tencent_rows tencent_format tencent_formats notice_dates strptime_examples)

lemma fetched_a:
  "fetched (tencent_only [row_a]) [WeixinPaySource lt rp, TencentCloudSource, YeepaySource]
     = [notice_a]"
  by (simp add: fetched_def fetched_from_def tencent_only_fetch tencent_rows
      tencent_format tencent_formats)

lemma well_formed_a:
  "all_well_formed (tencent_only [row_a])
     [WeixinPaySource lt rp, TencentCloudSource, YeepaySource]"
  by (simp add: all_well_formed_def fetch_ok_def well_formed_def
      tencent_only_fetch tencent_rows tencent_format tencent_formats notice_dates strptime_examples)

lemma baseline_fields:
  "sources baseline = [WeixinPaySource no_localtime no_repr, TencentCloudSource, YeepaySource]"
  "last_items baseline = {item_key notice_a}"
  "debug_time baseline = None"
  "\<not> is_first_run baseline"
  "posts baseline = []"
proof -
  let ?m = "main_monitor no_localtime no_repr"
  have wf: "all_well_formed (tencent_only [row_a]) (sources ?m)"
    by (simp add: main_monitor_fields well_formed_a)
  have ans: "answers webhook_ok (length (posts ?m))
               (to_send (is_first_run ?m) (last_items ?m) (debug_time ?m)
                  (fetched (tencent_only [row_a]) (sources ?m)))"
    by (simp add: main_monitor_fields to_send_def)
  from check_updates_clean [OF wf ans] obtain m' where
    m': "baseline = m'"
      "last_items m' = last_items ?m \<union>
         item_key ` set (filter (is_candidate (debug_time ?m)) (fetched (tencent_only [row_a]) (sources ?m)))"
      "posts m' = posts ?m @
         to_send (is_first_run ?m) (last_items ?m) (debug_time ?m) (fetched (tencent_only [row_a]) (sources ?m))"
      "\<not> is_first_run m'" "debug_time m' = debug_time ?m" "sources m' = sources ?m"
    unfolding baseline_def by blast
  show "sources baseline = [WeixinPaySource no_localtime no_repr, TencentCloudSource, YeepaySource]"
    using m' by (simp add: main_monitor_fields)
  show "last_items baseline = {item_key notice_a}"
    using m' by (simp add: main_monitor_fields fetched_a is_candidate_def)
  show "debug_time baseline = None"
    using m' by (simp add: main_monitor_fields)
  show "\<not> is_first_run baseline"
    using m' by simp
  show "posts baseline = []"
    using m' by (simp add: main_monitor_fields to_send_def)
qed

lemma outage_raises:
  "check_updates_try outage webhook (main_monitor lt rp) = Raised ConnectionError (main_monitor lt rp)"
  by (simp add: check_updates_try_def main_monitor_fields WeixinPaySource_def
      WeixinPaySource_get_announcements_def outage_def)

lemma debug_monitor_fields:
  "sources debug_monitor = [WeixinPaySource no_localtime no_repr, TencentCloudSource, YeepaySource]"
  "last_items debug_monitor = {}"
  "debug_time debug_monitor = Some (Date 2025 1 15)"
  "is_first_run debug_monitor"
  "posts debug_monitor = []"
  by (simp_all add: debug_monitor_def set_debug_time_def strptime_examples main_monitor_fields)

lemma fetched_nothing:
  "fetched (tencent_only []) [WeixinPaySource lt rp, TencentCloudSource, YeepaySource] = []"
  "all_well_formed (tencent_only []) [WeixinPaySource lt rp, TencentCloudSource, YeepaySource]"
  by (simp_all add: fetched_def fetched_from_def all_well_formed_def fetch_ok_def tencent_only_fetch)

lemma debug_steady_fields:
  "sources debug_steady = [WeixinPaySource no_localtime no_repr, TencentCloudSource, YeepaySource]"
  "last_items debug_steady = {}"
  "debug_time debug_steady = Some (Date 2025 1 15)"
  "\<not> is_first_run debug_steady"
  "posts debug_steady = []"
proof -
  let ?m = debug_monitor
  have wf: "all_well_formed (tencent_only []) (sources ?m)"
    by (simp add: debug_monitor_fields fetched_nothing)
  have ans: "answers webhook_ok (length (posts ?m))
               (to_send (is_first_run ?m) (last_items ?m) (debug_time ?m)
                  (fetched (tencent_only []) (sources ?m)))"
    by (simp add: debug_monitor_fields to_send_def)
  from check_updates_clean [OF wf ans] obtain m' where
    m': "debug_steady = m'"
      "last_items m' = last_items ?m \<union>
         item_key ` set (filter (is_candidate (debug_time ?m)) (fetched (tencent_only []) (sources ?m)))"
      "posts m' = posts ?m @
         to_send (is_first_run ?m) (last_items ?m) (debug_time ?m) (fetched (tencent_only []) (sources ?m))"
      "\<not> is_first_run m'" "debug_time m' = debug_time ?m" "sources m' = sources ?m"
    unfolding debug_steady_def by blast
  show "sources debug_steady = [WeixinPaySource no_localtime no_repr, TencentCloudSource, YeepaySource]"
    using m' by (simp add: debug_monitor_fields)
  show "last_items debug_steady = {}"
    using m' by (simp add: debug_monitor_fields fetched_nothing)
  show "debug_time debug_steady = Some (Date 2025 1 15)"
    using m' by (simp add: debug_monitor_fields)
  show "\<not> is_first_run debug_steady"
    using m' by simp
  show "posts debug_steady = []"
    using m' by (simp add: debug_monitor_fields to_send_def)
qed

lemma keys_differ: "item_key notice_a \<noteq> item_key notice_b"
  by (simp add: key_examples ascii_def)

lemma blank_row:
  "tencent_parse row_blank = Inr (Some raw_blank)"
  by (simp add: tencent_parse_def row_blank_def row_def raw_blank_def strip_def split_on_def
      ascii_def isspace_def)

lemma blank_format: "TencentCloudSource_format_notification raw_blank = Inl IndexError"
  by (simp add: TencentCloudSource_format_notification_def raw_blank_def split_ws_def)

lemma weixin_listing_contents: "contentlist_of weixin_listing = Inr [weixin_raw]"
  by (simp add: contentlist_of_def weixin_listing_def dict_get_def subscript_def eq_zero_def
      iterate_def ascii_def)

lemma contentlist_examples:
  "contentlist_of ok_response = Inl JSONDecodeError" "contentlist_of error_page = Inr []"
  by (simp_all add: contentlist_of_def ok_response_def error_page_def)

lemma listings_fetch:
  "get_announcements (WeixinPaySource lt rp) (listings tc_rows yp_rows) = Inr []"
  "get_announcements TencentCloudSource (listings tc_rows yp_rows)
     = Inr (map TencentCloudItem (tencent_items tc_rows))"
  "get_announcements YeepaySource (listings tc_rows yp_rows)
     = Inr (map YeepayItem (yeepay_items yp_rows))"
  by (simp_all add: WeixinPaySource_def TencentCloudSource_def YeepaySource_def
      WeixinPaySource_get_announcements_def contentlist_of_def
      TencentCloudSource_get_announcements_def TencentCloudSource_try_def
      YeepaySource_get_announcements_def YeepaySource_try_def
      listings_def page_def error_page_def)

lemma yeepay_row: "yeepay_parse row_e = Inr (Some yeepay_raw)"
  by (simp add: yeepay_parse_def row_e_def row_def yeepay_raw_def strip_def split_on_def
      ascii_def isspace_def)

lemma yeepay_format:
  "format_notification YeepaySource (YeepayItem item) = YeepaySource_format_notification item"
  by (simp add: YeepaySource_def)

lemma yeepay_formats: "YeepaySource_format_notification yeepay_raw = Inr notice_e"
  by (simp add: YeepaySource_format_notification_def yeepay_raw_def notice_e_def split_ws_def
      ascii_def isspace_def)

lemma notice_e_facts:
  "strptime (date notice_e) = Inr (Date 2025 1 13)"
  "item_key notice_e \<noteq> item_key notice_a"
  by (simp_all add: notice_e_def notice_a_def item_key_def ascii_def is_digit_def digit_val_def
      digit_zero_def digit_zeros_def days_in_month_def)

lemma class_names:
  "class_name (WeixinPaySource lt rp) = ascii ''WeixinPaySource''"
  "class_name TencentCloudSource = ascii ''TencentCloudSource''"
  "class_name YeepaySource = ascii ''YeepaySource''"
  by (simp_all add: WeixinPaySource_def TencentCloudSource_def YeepaySource_def)

lemma blank_row_cycle:
  assumes "sources m = [WeixinPaySource lt rp, TencentCloudSource, YeepaySource]"
    and "get_announcements (WeixinPaySource lt rp) net = Inr []"
    and "get_announcements TencentCloudSource net = Inr (TencentCloudItem raw_blank # rest)"
  shows "check_updates net webhook m =
           print (CheckError IndexError)
             (print (Checking (ascii ''TencentCloudSource'') (Suc (length rest)))
                (print (Checking (ascii ''WeixinPaySource'') 0) m))"
  using assms
  by (simp add: check_updates_def check_updates_try_def check_item_def class_names
      tencent_format blank_format)

lemma only_e_cycle:
  "posts (check_updates (listings [] [row_e]) webhook_ok baseline) = [notice_e]"
proof -
  let ?net = "listings [] [row_e]"
  have fetched: "fetched ?net (sources baseline) = [notice_e]"
    by (simp add: baseline_fields fetched_def fetched_from_def listings_fetch yeepay_row
        yeepay_format yeepay_formats)
  have wf: "all_well_formed ?net (sources baseline)"
    by (simp add: baseline_fields all_well_formed_def fetch_ok_def well_formed_def
        listings_fetch yeepay_row yeepay_format yeepay_formats notice_e_facts)
  have send: "to_send (is_first_run baseline) (last_items baseline) (debug_time baseline)
                (fetched ?net (sources baseline)) = [notice_e]"
    unfolding fetched using notice_e_facts(2)
    by (simp add: baseline_fields to_send_def is_candidate_def)
  have ans: "answers webhook_ok (length (posts baseline))
               (to_send (is_first_run baseline) (last_items baseline) (debug_time baseline)
                  (fetched ?net (sources baseline)))"
    unfolding send by (simp add: webhook_ok_def)
  from check_updates_clean [OF wf ans] show ?thesis
    unfolding send by (auto simp: baseline_fields)
qed

lemma send_b_after_a:
  "to_send False {item_key notice_a} None [notice_a, notice_b] = [notice_b]"
  using keys_differ by (simp add: to_send_def is_candidate_def)

lemma send_b_debug:
  "to_send False {} (Some (Date 2025 1 15)) [notice_a, notice_b] = [notice_b]"
  by (simp add: to_send_def is_candidate_def notice_dates strptime_examples date_ge_def)

lemma posted_twice:
  "posts (run a_and_b webhook_down_once 2 debug_steady) = [notice_b, notice_b]"
proof -
  let ?net = "tencent_only [row_a, row_b]"
  let ?c = "Date 2025 1 15"
  have wf: "all_well_formed ?net (sources debug_steady)"
    by (simp add: debug_steady_fields well_formed_example)
  have send: "to_send (is_first_run debug_steady) (last_items debug_steady)
                (debug_time debug_steady) (fetched ?net (sources debug_steady))
                = [] @ notice_b # []"
    by (simp add: debug_steady_fields fetched_example send_b_debug del: One_nat_def)
  have ans: "answers webhook_down_once (length (posts debug_steady)) []" by simp
  have wh: "webhook_down_once (length (posts debug_steady) + length ([]::announcement list))
              notice_b = Inl ConnectionError"
    by (simp add: webhook_down_once_def debug_steady_fields)
  from check_updates_raises [where webhook = webhook_down_once, OF wf send ans wh] obtain m' where
    m': "check_updates ?net webhook_down_once debug_steady = print (CheckError ConnectionError) m'"
      "last_items m' = last_items debug_steady \<union> item_key ` set []"
      "posts m' = posts debug_steady @ [] @ [notice_b]"
      "is_first_run m' = is_first_run debug_steady" "debug_time m' = debug_time debug_steady"
      "sources m' = sources debug_steady"
    by blast
  let ?m1 = "print (CheckError ConnectionError) m'"
  have f1: "sources ?m1 = [WeixinPaySource no_localtime no_repr, TencentCloudSource, YeepaySource]"
    "last_items ?m1 = {}" "debug_time ?m1 = Some ?c" "\<not> is_first_run ?m1"
    "posts ?m1 = [notice_b]"
    using m' by (simp_all add: print_simps debug_steady_fields)
  have wf1: "all_well_formed ?net (sources ?m1)"
    unfolding f1 by (rule well_formed_example)
  have send1: "to_send (is_first_run ?m1) (last_items ?m1) (debug_time ?m1)
                 (fetched ?net (sources ?m1)) = [notice_b]"
    unfolding f1 using f1(4) by (simp add: fetched_example send_b_debug del: One_nat_def)
  have ans1: "answers webhook_down_once (length (posts ?m1))
                (to_send (is_first_run ?m1) (last_items ?m1) (debug_time ?m1)
                   (fetched ?net (sources ?m1)))"
    unfolding send1 by (simp add: f1 webhook_down_once_def)
  from check_updates_clean [OF wf1 ans1] have
    "posts (check_updates ?net webhook_down_once ?m1) = posts ?m1 @ [notice_b]"
    unfolding send1 by auto
  then show ?thesis
    by (simp add: run_2 a_and_b_def m'(1) f1)
qed

lemma never_posted:
  "posts (run blank_before_b webhook_ok 3 debug_steady) = []"
proof -
  have tc: "get_announcements TencentCloudSource (tencent_only [row_blank, row_b])
              = Inr (TencentCloudItem raw_blank # [TencentCloudItem raw_b])"
    by (simp add: tencent_only_fetch blank_row tencent_rows raw_b_def)
  note cycle = blank_row_cycle [where webhook = webhook_ok, OF _ tencent_only_fetch(1) tc]
  show ?thesis
    by (simp add: run_3 blank_before_b_def cycle print_simps debug_steady_fields)
qed

section \<open>The properties\<close>

text \<open>
  C1, as stated, fails: one handler surrounds the whole cycle, so an item whose
  normalization raises ends the cycle for the sources registered after its own. Here
  the monitor is in STEADY_STATE with notice A in its ledger, the Tencent Cloud page
  holds a row with a blank time (its normalization raises \<open>IndexError\<close>) and Yeepay,
  registered after it, lists the new notice E: Yeepay is not fetched, nothing is posted
  and E's key is not added, although the same Yeepay listing is notified when the
  Tencent Cloud page has no such row.
\<close>

theorem failing_item_stops_the_cycle:
  "sources baseline = [WeixinPaySource no_localtime no_repr, TencentCloudSource, YeepaySource] \<and>
   \<not> is_first_run baseline \<and>
   get_announcements TencentCloudSource (listings [row_blank] [row_e])
     = Inr [TencentCloudItem raw_blank] \<and>
   format_notification TencentCloudSource (TencentCloudItem raw_blank) = Inl IndexError \<and>
   get_announcements YeepaySource (listings [row_blank] [row_e]) = Inr [YeepayItem yeepay_raw] \<and>
   format_notification YeepaySource (YeepayItem yeepay_raw) = Inr notice_e \<and>
   item_key notice_e \<notin> last_items baseline \<and>
   check_updates (listings [row_blank] [row_e]) webhook_ok baseline
     = print (CheckError IndexError)
         (print (Checking (ascii ''TencentCloudSource'') 1)
            (print (Checking (ascii ''WeixinPaySource'') 0) baseline)) \<and>
   posts (check_updates (listings [row_blank] [row_e]) webhook_ok baseline) = [] \<and>
   item_key notice_e \<notin> last_items (check_updates (listings [row_blank] [row_e]) webhook_ok baseline) \<and>
   posts (check_updates (listings [] [row_e]) webhook_ok baseline) = [notice_e]"
proof -
  let ?net = "listings [row_blank] [row_e]"
  have tc: "get_announcements TencentCloudSource ?net = Inr (TencentCloudItem raw_blank # [])"
    by (simp add: listings_fetch blank_row)
  have stop: "check_updates ?net webhook_ok baseline
                = print (CheckError IndexError)
                    (print (Checking (ascii ''TencentCloudSource'') (Suc (length ([]::raw_item list))))
                       (print (Checking (ascii ''WeixinPaySource'') 0) baseline))"
    by (rule blank_row_cycle [OF baseline_fields(1) listings_fetch(1) tc])
  show ?thesis
    unfolding stop using notice_e_facts(2) tc
    by (simp add: baseline_fields listings_fetch yeepay_row yeepay_format yeepay_formats
        tencent_format blank_format print_simps only_e_cycle)
qed

text \<open>
  C1, amended. When the normalization of one of a source's items raises
  (\<open>format_notification\<close>, or the parsing of the date), the exception reaches the handler
  around the cycle and is printed: \<open>check_updates\<close> returns the monitor as the sources
  registered before and the items before the failing one left it, with that line added.
  The remaining items and the sources registered later are not processed in that cycle.
\<close>

theorem failing_item_ends_the_cycle:
  assumes "sources m = pre @ src # post"
    and "check_sources net webhook pre m = Done m1"
    and "get_announcements src net = Inr (seen @ raw # rest)"
    and "check_items webhook src seen
           (print (Checking (class_name src) (length (seen @ raw # rest))) m1) = Done m2"
    and "format_notification src raw = Inl e \<or>
         (\<exists>a. format_notification src raw = Inr a \<and> strptime (date a) = Inl e)"
  shows "check_updates net webhook m = print (CheckError e) m2"
proof -
  have "check_item webhook src raw m2 = Raised e m2"
    using assms(5) by (auto simp: check_item_def)
  then have "check_items webhook src (seen @ raw # rest)
          (print (Checking (class_name src) (length (seen @ raw # rest))) m1) = Raised e m2"
    using assms(4) by (simp add: check_items_append)
  then show ?thesis
    using assms(1,2,3) by (simp add: check_updates_def check_updates_try_def check_sources_append)
qed

theorem failing_item_ends_the_cycle_witness:
  "sources baseline = [WeixinPaySource no_localtime no_repr] @ TencentCloudSource # [YeepaySource] \<and>
   check_sources (listings [row_a, row_blank, row_b] [row_e]) webhook_ok
       [WeixinPaySource no_localtime no_repr] baseline
     = Done (print (Checking (ascii ''WeixinPaySource'') 0) baseline) \<and>
   get_announcements TencentCloudSource (listings [row_a, row_blank, row_b] [row_e])
     = Inr ([TencentCloudItem raw_a] @ TencentCloudItem raw_blank # [TencentCloudItem raw_b]) \<and>
   format_notification TencentCloudSource (TencentCloudItem raw_blank) = Inl IndexError \<and>
   check_updates (listings [row_a, row_blank, row_b] [row_e]) webhook_ok baseline
     = print (CheckError IndexError)
         (print (Checking (ascii ''TencentCloudSource'') 3)
            (print (Checking (ascii ''WeixinPaySource'') 0) baseline)) \<and>
   posts (check_updates (listings [row_a, row_blank, row_b] [row_e]) webhook_ok baseline) = []"
proof -
  let ?wx = "WeixinPaySource no_localtime no_repr"
  let ?net = "listings [row_a, row_blank, row_b] [row_e]"
  let ?m1 = "print (Checking (ascii ''WeixinPaySource'') 0) baseline"
  let ?m2 = "print (Checking (ascii ''TencentCloudSource'') 3) ?m1"
  have h1: "sources baseline = [?wx] @ TencentCloudSource # [YeepaySource]"
    by (simp add: baseline_fields)
  have h2: "check_sources ?net webhook_ok [?wx] baseline = Done ?m1"
    by (simp add: listings_fetch class_names)
  have h3: "get_announcements TencentCloudSource ?net
              = Inr ([TencentCloudItem raw_a] @ TencentCloudItem raw_blank # [TencentCloudItem raw_b])"
    by (simp add: listings_fetch tencent_rows blank_row raw_a_def raw_b_def)
  have h4: "check_items webhook_ok TencentCloudSource [TencentCloudItem raw_a]
              (print (Checking (class_name TencentCloudSource)
                 (length ([TencentCloudItem raw_a] @ TencentCloudItem raw_blank
                            # [TencentCloudItem raw_b]))) ?m1) = Done ?m2"
    by (simp add: check_item_def class_names tencent_format tencent_formats raw_a_def
        notice_dates strptime_examples print_simps baseline_fields)
  have h5: "format_notification TencentCloudSource (TencentCloudItem raw_blank) = Inl IndexError \<or>
            (\<exists>a. format_notification TencentCloudSource (TencentCloudItem raw_blank) = Inr a \<and>
                 strptime (date a) = Inl IndexError)"
    by (simp add: tencent_format blank_format)
  have stop: "check_updates ?net webhook_ok baseline = print (CheckError IndexError) ?m2"
    by (rule failing_item_ends_the_cycle [OF h1 h2 h3 h4 h5])
  show ?thesis
    unfolding stop using h1 h2 h3
    by (simp add: tencent_format blank_format print_simps baseline_fields)
qed

text \<open>
  C2. \<open>WeixinPaySource.get_announcements\<close> has no handler: a connection error of either
  request and a body that is not JSON are raised to the caller, also when the other
  request returned a listing. The two sibling sources return the empty list in the same
  outage.
\<close>

theorem weixin_fetch_raises:
  "WeixinPaySource_get_announcements outage = Inl ConnectionError \<and>
   TencentCloudSource_get_announcements outage = Inr [] \<and>
   YeepaySource_get_announcements outage = Inr [] \<and>
   WeixinPaySource_get_announcements weixin_malformed = Inl JSONDecodeError \<and>
   contentlist_of weixin_listing = Inr [weixin_raw] \<and>
   WeixinPaySource_get_announcements weixin_half = Inl ConnectionError"
  by (simp add: WeixinPaySource_get_announcements_def TencentCloudSource_get_announcements_def
      TencentCloudSource_try_def YeepaySource_get_announcements_def YeepaySource_try_def
      outage_def weixin_malformed_def weixin_half_def weixin_listing_contents
      contentlist_examples)

text \<open>
  C3, as stated, fails: the key is the three fields joined by \<open>_\<close>, so two
  announcements with different sources and titles have the same key when the separator
  can be read as part of either.
\<close>

theorem item_key_collision:
  "item_key split_left = item_key split_right \<and> source split_left \<noteq> source split_right \<and>
   title split_left \<noteq> title split_right \<and> date split_left = date split_right"
  by (simp add: item_key_def split_left_def split_right_def ascii_def)

text \<open>
  C3, amended. For announcements whose source does not contain \<open>_\<close> (as none of the
  three providers' names does) and whose date parses as \<open>%Y-%m-%d\<close> (as it has when
  \<open>check_updates\<close> computes a key), the keys are equal exactly when source, title and
  date are, whatever the time and the link, and also when a title contains \<open>_\<close>.
\<close>

theorem item_key_identifies:
  assumes "95 \<notin> set (source a)" and "95 \<notin> set (source b)"
    and "strptime (date a) = Inr da" and "strptime (date b) = Inr db"
  shows "item_key a = item_key b \<longleftrightarrow> source a = source b \<and> title a = title b \<and> date a = date b"
proof
  assume eq: "item_key a = item_key b"
  have 1: "source a = source b \<and> title a @ 95 # date a = title b @ 95 # date b"
    using eq assms(1,2) unfolding item_key_def by (intro first_separator) auto
  have "title a = title b \<and> date a = date b"
    using 1 strptime_no_separator [OF assms(3)] strptime_no_separator [OF assms(4)]
    by (intro last_separator) auto
  then show "source a = source b \<and> title a = title b \<and> date a = date b" using 1 by simp
next
  assume "source a = source b \<and> title a = title b \<and> date a = date b"
  then show "item_key a = item_key b" by (simp add: item_key_def)
qed

theorem item_key_identifies_witness:
  "95 \<notin> set (source notice_u) \<and> 95 \<notin> set (source (notice_u\<lparr>time := ascii ''21:00:00''\<rparr>)) \<and>
   strptime (date notice_u) = Inr (Date 2025 1 10) \<and>
   strptime (date (notice_u\<lparr>time := ascii ''21:00:00''\<rparr>)) = Inr (Date 2025 1 10) \<and>
   95 \<in> set (title notice_u) \<and>
   item_key notice_u = item_key (notice_u\<lparr>time := ascii ''21:00:00''\<rparr>) \<and>
   item_key notice_u \<noteq> item_key notice_a"
proof -
  let ?later = "notice_u\<lparr>time := ascii ''21:00:00''\<rparr>"
  have h: "95 \<notin> set (source notice_u)" "95 \<notin> set (source ?later)"
    "strptime (date notice_u) = Inr (Date 2025 1 10)"
    "strptime (date ?later) = Inr (Date 2025 1 10)"
    by (simp_all add: notice_u_def strptime_examples)
  have h': "95 \<notin> set (source notice_a)" "strptime (date notice_a) = Inr (Date 2025 1 10)"
    by (simp_all add: notice_a_def strptime_examples)
  have t: "95 \<in> set (title notice_u)" "title notice_u \<noteq> title notice_a"
    by (simp_all add: notice_u_def notice_a_def ascii_def)
  show ?thesis
    using h t item_key_identifies [OF h] item_key_identifies [OF h(1) h'(1) h(3) h'(2)]
    by simp
qed

text \<open>
  C4. In NORMAL mode, the first poll cycle of a fresh monitor (empty ledger, first run),
  in which every source returns and every item is well formed, sends no notification;
  the ledger ends the cycle holding exactly the keys of the announcements fetched, as
  many as there are distinct keys among them, and the first run is over.
\<close>

theorem first_cycle_silent_baseline:
  assumes "is_first_run m" and "last_items m = {}" and "debug_time m = None"
    and "all_well_formed net (sources m)"
  shows "posts (check_updates net webhook m) = posts m \<and>
         last_items (check_updates net webhook m) = item_key ` set (fetched net (sources m)) \<and>
         card (last_items (check_updates net webhook m)) =
           length (remdups (map item_key (fetched net (sources m)))) \<and>
         \<not> is_first_run (check_updates net webhook m)"
proof -
  have "answers webhook (length (posts m))
          (to_send (is_first_run m) (last_items m) (debug_time m) (fetched net (sources m)))"
    using assms(1) by (simp add: to_send_def)
  from check_updates_clean [OF assms(4) this] obtain m' where
    m': "check_updates net webhook m = m'"
      "last_items m' = last_items m \<union>
         item_key ` set (filter (is_candidate (debug_time m)) (fetched net (sources m)))"
      "posts m' = posts m @
         to_send (is_first_run m) (last_items m) (debug_time m) (fetched net (sources m))"
      "\<not> is_first_run m'"
    by blast
  have ledger: "last_items m' = item_key ` set (fetched net (sources m))"
    using m'(2) assms(2,3) by (simp add: is_candidate_def)
  have "card (item_key ` set (fetched net (sources m))) =
          length (remdups (map item_key (fetched net (sources m))))"
    using List.card_set [of "map item_key (fetched net (sources m))"] by simp
  then show ?thesis
    using m' ledger assms(1) by (simp add: to_send_def)
qed

theorem first_cycle_silent_baseline_witness:
  "is_first_run (main_monitor no_localtime no_repr) \<and>
   last_items (main_monitor no_localtime no_repr) = {} \<and>
   debug_time (main_monitor no_localtime no_repr) = None \<and>
   all_well_formed (tencent_only [row_a, row_b]) (sources (main_monitor no_localtime no_repr)) \<and>
   posts (check_updates (tencent_only [row_a, row_b]) webhook_ok (main_monitor no_localtime no_repr)) = [] \<and>
   last_items (check_updates (tencent_only [row_a, row_b]) webhook_ok (main_monitor no_localtime no_repr))
     = {item_key notice_a, item_key notice_b} \<and>
   card (last_items (check_updates (tencent_only [row_a, row_b]) webhook_ok
           (main_monitor no_localtime no_repr))) = 2"
proof -
  let ?m = "main_monitor no_localtime no_repr"
  let ?net = "tencent_only [row_a, row_b]"
  have h: "is_first_run ?m" "last_items ?m = {}" "debug_time ?m = None"
    "all_well_formed ?net (sources ?m)"
    by (simp_all add: main_monitor_fields well_formed_example)
  show ?thesis
    using h first_cycle_silent_baseline [OF h, of webhook_ok]
    by (simp add: fetched_example main_monitor_fields key_examples ascii_def)
qed

text \<open>
  C5, as stated, fails when the request to the webhook itself raises: the one request is
  made, the exception ends the cycle before the key is added, and the ledger keeps its
  one key.
\<close>

theorem post_raises_key_not_added:
  "\<not> is_first_run baseline \<and> debug_time baseline = None \<and>
   last_items baseline = {item_key notice_a} \<and>
   fetched (tencent_only [row_a, row_b]) (sources baseline) = [notice_a, notice_b] \<and>
   item_key notice_b \<notin> last_items baseline \<and>
   webhook_down (length (posts baseline)) notice_b = Inl ConnectionError \<and>
   posts (check_updates (tencent_only [row_a, row_b]) webhook_down baseline) = [notice_b] \<and>
   last_items (check_updates (tencent_only [row_a, row_b]) webhook_down baseline)
     = {item_key notice_a} \<and>
   card (last_items (check_updates (tencent_only [row_a, row_b]) webhook_down baseline)) = 1"
proof -
  let ?net = "tencent_only [row_a, row_b]"
  have wf: "all_well_formed ?net (sources baseline)"
    by (simp add: baseline_fields well_formed_example)
  have send: "to_send (is_first_run baseline) (last_items baseline) (debug_time baseline)
                (fetched ?net (sources baseline)) = [] @ notice_b # []"
    by (simp add: baseline_fields fetched_example send_b_after_a)
  have ans: "answers webhook_down (length (posts baseline)) []" by simp
  have wh: "webhook_down (length (posts baseline) + length ([]::announcement list)) notice_b
              = Inl ConnectionError"
    by (simp add: webhook_down_def)
  from check_updates_raises [where webhook = webhook_down, OF wf send ans wh] obtain m' where
    "check_updates ?net webhook_down baseline = print (CheckError ConnectionError) m'"
    "last_items m' = last_items baseline \<union> item_key ` set []"
    "posts m' = posts baseline @ [] @ [notice_b]"
    by blast
  then show ?thesis
    using keys_differ
    by (simp add: print_simps baseline_fields fetched_example webhook_down_def)
qed

text \<open>
  C5, amended. In NORMAL mode and STEADY_STATE, a cycle in which every source returns
  and every item is well formed, and whose announcements are items already in the ledger
  plus exactly one whose key the ledger lacks, makes exactly one request to the webhook,
  for that announcement; when the webhook returns a response to it (of any status) the
  ledger gains that one key and nothing else.
\<close>

theorem one_new_item_one_notification:
  assumes "\<not> is_first_run m" and "debug_time m = None"
    and "all_well_formed net (sources m)"
    and "fetched net (sources m) = xs @ [a] @ ys"
    and "item_key ` set xs \<subseteq> last_items m" and "item_key ` set ys \<subseteq> last_items m"
    and "item_key a \<notin> last_items m"
    and "finite (last_items m)"
  shows "posts (check_updates net webhook m) = posts m @ [a] \<and>
         ((\<exists>r. webhook (length (posts m)) a = Inr r) \<longrightarrow>
            last_items (check_updates net webhook m) = insert (item_key a) (last_items m) \<and>
            card (last_items (check_updates net webhook m)) = Suc (card (last_items m)))"
proof -
  have send: "to_send (is_first_run m) (last_items m) (debug_time m) (fetched net (sources m)) = [a]"
    using assms(1,2) fresh_items_one [OF assms(5,6,7)]
    by (simp add: to_send_def is_candidate_def assms(4))
  show ?thesis
  proof (cases "webhook (length (posts m)) a")
    case (Inl e)
    have send': "to_send (is_first_run m) (last_items m) (debug_time m) (fetched net (sources m))
                   = [] @ a # []"
      using send by simp
    have ans: "answers webhook (length (posts m)) []" by simp
    have wh: "webhook (length (posts m) + length ([]::announcement list)) a = Inl e"
      using Inl by simp
    from check_updates_raises [where webhook = webhook, OF assms(3) send' ans wh] obtain m' where
      "check_updates net webhook m = print (CheckError e) m'" "posts m' = posts m @ [] @ [a]"
      by blast
    then show ?thesis using Inl by (simp add: print_simps)
  next
    case (Inr r)
    have "answers webhook (length (posts m))
            (to_send (is_first_run m) (last_items m) (debug_time m) (fetched net (sources m)))"
      unfolding send using Inr by simp
    from check_updates_clean [OF assms(3) this] obtain m' where
      m': "check_updates net webhook m = m'"
        "last_items m' = last_items m \<union>
           item_key ` set (filter (is_candidate (debug_time m)) (fetched net (sources m)))"
        "posts m' = posts m @
           to_send (is_first_run m) (last_items m) (debug_time m) (fetched net (sources m))"
      by blast
    have ledger: "last_items m' = insert (item_key a) (last_items m)"
      using m'(2) assms(2,5,6) by (auto simp: is_candidate_def assms(4))
    show ?thesis
      using m'(1,3) ledger send assms(7,8) by simp
  qed
qed

theorem one_new_item_one_notification_witness:
  "\<not> is_first_run baseline \<and> debug_time baseline = None \<and>
   all_well_formed (tencent_only [row_a, row_b]) (sources baseline) \<and>
   fetched (tencent_only [row_a, row_b]) (sources baseline) = [notice_a] @ [notice_b] @ [] \<and>
   item_key notice_b \<notin> last_items baseline \<and>
   finite (last_items baseline) \<and>
   webhook_ok (length (posts baseline)) notice_b = Inr ok_response \<and>
   posts (check_updates (tencent_only [row_a, row_b]) webhook_ok baseline) = [notice_b] \<and>
   last_items (check_updates (tencent_only [row_a, row_b]) webhook_ok baseline)
     = {item_key notice_b, item_key notice_a} \<and>
   card (last_items (check_updates (tencent_only [row_a, row_b]) webhook_ok baseline)) = 2 \<and>
   posts (check_updates (tencent_only [row_a, row_b]) webhook_down baseline) = [notice_b]"
proof -
  let ?net = "tencent_only [row_a, row_b]"
  have h: "\<not> is_first_run baseline" "debug_time baseline = None"
    "all_well_formed ?net (sources baseline)"
    "fetched ?net (sources baseline) = [notice_a] @ [notice_b] @ []"
    "item_key ` set [notice_a] \<subseteq> last_items baseline"
    "item_key ` set [] \<subseteq> last_items baseline"
    "item_key notice_b \<notin> last_items baseline"
    "finite (last_items baseline)"
    using keys_differ
    by (auto simp: baseline_fields well_formed_example fetched_example)
  have r: "webhook_ok (length (posts baseline)) notice_b = Inr ok_response"
    by (simp add: webhook_ok_def)
  note ok = one_new_item_one_notification
    [where webhook = webhook_ok and a = notice_b and xs = "[notice_a]" and ys = "[]", OF h]
  note down = one_new_item_one_notification
    [where webhook = webhook_down and a = notice_b and xs = "[notice_a]" and ys = "[]", OF h]
  show ?thesis
    using h r ok down by (simp add: baseline_fields)
qed

text \<open>
  C6. A poll cycle in which every candidate fetched has its key in the ledger already
  (the same raw items as in an earlier cycle; in NORMAL mode every announcement is a
  candidate) sends no notification and leaves the ledger as it was. This holds in any
  state of the monitor, STEADY_STATE in particular, and whether or not the cycle runs to
  its end.
\<close>

theorem redelivery_is_silent:
  assumes "item_key ` set (filter (is_candidate (debug_time m)) (fetched net (sources m)))
             \<subseteq> last_items m"
  shows "posts (check_updates net webhook m) = posts m \<and>
         last_items (check_updates net webhook m) = last_items m"
  using check_sources_known [where webhook = webhook, OF assms]
  by (cases "check_sources net webhook (sources m) m")
     (auto simp: check_updates_def check_updates_try_def print_simps)

theorem redelivery_is_silent_witness:
  "item_key ` set (filter (is_candidate (debug_time baseline))
                     (fetched (tencent_only [row_a]) (sources baseline))) \<subseteq> last_items baseline \<and>
   \<not> is_first_run baseline \<and>
   fetched (tencent_only [row_a]) (sources baseline) = [notice_a] \<and>
   posts (check_updates (tencent_only [row_a]) webhook_ok baseline) = [] \<and>
   last_items (check_updates (tencent_only [row_a]) webhook_ok baseline) = {item_key notice_a}"
proof -
  have h: "item_key ` set (filter (is_candidate (debug_time baseline))
                             (fetched (tencent_only [row_a]) (sources baseline)))
             \<subseteq> last_items baseline"
    by (simp add: baseline_fields fetched_a is_candidate_def)
  show ?thesis
    using h redelivery_is_silent [OF h, of webhook_ok] by (simp add: baseline_fields fetched_a)
qed

text \<open>
  C7, as stated, fails in its second half. In DEBUG mode with the cutoff 2025-01-15 and
  in STEADY_STATE, notice B (dated 2025-01-20, new to the ledger) is posted twice when
  the webhook cannot be reached for the first request: the key is not added, and the
  next cycle posts it again. And it is never posted while a row with a blank time is
  listed before it: each cycle ends at that row.
\<close>

theorem candidate_posted_twice_or_never:
  "debug_time debug_steady = Some (Date 2025 1 15) \<and> \<not> is_first_run debug_steady \<and>
   strptime (date notice_b) = Inr (Date 2025 1 20) \<and>
   date_ge (Date 2025 1 20) (Date 2025 1 15) \<and>
   item_key notice_b \<notin> last_items debug_steady \<and>
   notice_b \<in> set (fetched (a_and_b 0) (sources debug_steady)) \<and>
   posts (run a_and_b webhook_down_once 2 debug_steady) = [notice_b, notice_b] \<and>
   get_announcements TencentCloudSource (blank_before_b 0)
     = Inr [TencentCloudItem raw_blank, TencentCloudItem raw_b] \<and>
   format_notification TencentCloudSource (TencentCloudItem raw_b) = Inr notice_b \<and>
   posts (run blank_before_b webhook_ok 3 debug_steady) = []"
  by (simp add: debug_steady_fields notice_dates strptime_examples date_ge_def a_and_b_def
      fetched_example posted_twice never_posted blank_before_b_def tencent_only_fetch
      blank_row tencent_rows raw_b_def tencent_format tencent_formats)

text \<open>
  C7, amended. In DEBUG mode with cutoff \<open>c\<close>: no request is ever made, in any number
  of turns of the loop, for an announcement whose date is before \<open>c\<close>; and an
  announcement dated on or after \<open>c\<close> whose key the ledger lacks, fetched in STEADY_STATE
  by a cycle in which every source returns, every item is well formed and the webhook
  returns a response to each request, is the subject of exactly one request, however
  many turns follow.
\<close>

theorem debug_cutoff:
  assumes "debug_time m = Some c"
  shows "(\<forall>n b d. strptime (date b) = Inr d \<and> \<not> date_ge d c \<longrightarrow>
            b \<notin> set (drop (length (posts m)) (posts (run nets webhook n m)))) \<and>
         (\<not> is_first_run m \<and> all_well_formed (nets 0) (sources m) \<and>
          a \<in> set (fetched (nets 0) (sources m)) \<and>
          is_candidate (Some c) a \<and> item_key a \<notin> last_items m \<and>
          answers webhook (length (posts m))
            (to_send False (last_items m) (Some c) (fetched (nets 0) (sources m))) \<longrightarrow>
          (\<forall>n>0. length (filter (\<lambda>b. item_key b = item_key a)
                          (drop (length (posts m)) (posts (run nets webhook n m)))) = 1))"
proof (intro conjI allI impI)
  fix n and b :: announcement and d
  assume b: "strptime (date b) = Inr d \<and> \<not> date_ge d c"
  show "b \<notin> set (drop (length (posts m)) (posts (run nets webhook n m)))"
    using grows_candidates [OF run_grows, of m nets webhook n] assms b
    by (auto simp: is_candidate_def)
next
  fix n :: nat
  assume h: "\<not> is_first_run m \<and> all_well_formed (nets 0) (sources m) \<and>
          a \<in> set (fetched (nets 0) (sources m)) \<and>
          is_candidate (Some c) a \<and> item_key a \<notin> last_items m \<and>
          answers webhook (length (posts m))
            (to_send False (last_items m) (Some c) (fetched (nets 0) (sources m)))"
    and n: "0 < n"
  let ?k = "item_key a"
  let ?as = "fetched (nets 0) (sources m)"
  have wf: "all_well_formed (nets 0) (sources m)" using h by simp
  have ans: "answers webhook (length (posts m))
               (to_send (is_first_run m) (last_items m) (debug_time m) ?as)"
    using h assms by simp
  from check_updates_clean [OF wf ans] obtain m1 where
    m1: "check_updates (nets 0) webhook m = m1"
      "last_items m1 = last_items m \<union> item_key ` set (filter (is_candidate (debug_time m)) ?as)"
      "posts m1 = posts m @ to_send (is_first_run m) (last_items m) (debug_time m) ?as"
    by blast
  have cand: "?k \<in> item_key ` set (filter (is_candidate (Some c)) ?as)"
    using h by auto
  have first: "length (filter (\<lambda>b. item_key b = ?k) (drop (length (posts m)) (posts m1))) = 1"
    using m1(3) h assms cand by (simp add: to_send_def fresh_items_count)
  have known: "?k \<in> last_items m1"
    using m1(2) cand assms by simp
  obtain n' where n': "n = Suc n'" using n by (cases n) auto
  let ?m2 = "run nets webhook n m"
  have m2: "?m2 = run (\<lambda>i. nets (Suc i)) webhook n' m1"
    unfolding n' run_Suc_first m1(1) ..
  have g: "grows m1 ?m2" unfolding m2 by (rule run_grows)
  then obtain ps where ps: "posts ?m2 = posts m1 @ ps" by (auto simp: grows_def)
  have later: "filter (\<lambda>b. item_key b = ?k) ps = []"
    using grows_no_repost [OF g known] ps by (auto simp: filter_empty_conv)
  have "drop (length (posts m)) (posts ?m2) = drop (length (posts m)) (posts m1) @ ps"
    using ps m1(3) by simp
  then show "length (filter (\<lambda>b. item_key b = ?k) (drop (length (posts m)) (posts ?m2))) = 1"
    using first later by simp
qed

theorem debug_cutoff_witness:
  "debug_time debug_steady = Some (Date 2025 1 15) \<and>
   strptime (date notice_a) = Inr (Date 2025 1 10) \<and>
   \<not> date_ge (Date 2025 1 10) (Date 2025 1 15) \<and>
   strptime (date notice_b) = Inr (Date 2025 1 20) \<and>
   date_ge (Date 2025 1 20) (Date 2025 1 15) \<and>
   \<not> is_first_run debug_steady \<and>
   notice_a \<in> set (fetched (a_and_b 0) (sources debug_steady)) \<and>
   notice_b \<in> set (fetched (a_and_b 0) (sources debug_steady)) \<and>
   item_key notice_b \<notin> last_items debug_steady \<and>
   notice_a \<notin> set (posts (run a_and_b webhook_ok 3 debug_steady)) \<and>
   length (filter (\<lambda>b. item_key b = item_key notice_b)
             (posts (run a_and_b webhook_ok 3 debug_steady))) = 1"
proof -
  let ?c = "Date 2025 1 15"
  have dbg: "debug_time debug_steady = Some ?c" by (simp add: debug_steady_fields)
  have a: "strptime (date notice_a) = Inr (Date 2025 1 10) \<and> \<not> date_ge (Date 2025 1 10) ?c"
    by (simp add: notice_dates strptime_examples date_ge_def)
  have b: "\<not> is_first_run debug_steady \<and>
           all_well_formed (a_and_b 0) (sources debug_steady) \<and>
           notice_b \<in> set (fetched (a_and_b 0) (sources debug_steady)) \<and>
           is_candidate (Some ?c) notice_b \<and> item_key notice_b \<notin> last_items debug_steady \<and>
           answers webhook_ok (length (posts debug_steady))
             (to_send False (last_items debug_steady) (Some ?c)
                (fetched (a_and_b 0) (sources debug_steady)))"
    by (simp add: debug_steady_fields a_and_b_def well_formed_example fetched_example
        is_candidate_def notice_dates strptime_examples date_ge_def to_send_def webhook_ok_def)
  have three: "(0::nat) < 3" by simp
  show ?thesis
    using dbg a b three
      debug_cutoff [OF dbg, of a_and_b webhook_ok notice_b]
    by (simp add: debug_steady_fields a_and_b_def fetched_example notice_dates
        strptime_examples date_ge_def)
qed

text \<open>
  C8. In STEADY_STATE, when the webhook answers the request for a newly detected
  announcement with a status outside 200..299, the loop body for that item completes
  (nothing is raised): one request was made, the failure was printed after the line
  announcing the detection, and the key is in the ledger. No later item of the cycle, no
  later source and no later cycle makes another request for that key, whatever the
  network and the webhook do.
\<close>

theorem failed_delivery_is_swallowed:
  assumes "\<not> is_first_run m"
    and "format_notification src raw = Inr a" and "strptime (date a) = Inr d"
    and "is_candidate (debug_time m) a" and "item_key a \<notin> last_items m"
    and "webhook (length (posts m)) a = Inr r"
    and "status_code r < 200 \<or> 300 \<le> status_code r"
  shows "\<exists>m'. check_item webhook src raw m = Done m' \<and>
           posts m' = posts m @ [a] \<and>
           stdout m' = stdout m @
             [case debug_time m of None \<Rightarrow> Detected (item_key a) | Some c \<Rightarrow> DebugDetected (item_key a),
              SendFailed (resp_text r)] \<and>
           last_items m' = insert (item_key a) (last_items m) \<and>
           (\<forall>wh s items. \<forall>b \<in> set (drop (length (posts m'))
                                    (posts (state_of (check_items wh s items m')))).
              item_key b \<noteq> item_key a) \<and>
           (\<forall>net wh srcs. \<forall>b \<in> set (drop (length (posts m'))
                                    (posts (state_of (check_sources net wh srcs m')))).
              item_key b \<noteq> item_key a) \<and>
           (\<forall>nets wh n. \<forall>b \<in> set (drop (length (posts m')) (posts (run nets wh n m'))).
              item_key b \<noteq> item_key a)"
proof -
  obtain m' where
    m': "check_item webhook src raw m = Done m'" "posts m' = posts m @ [a]"
      "stdout m' = stdout m @
         [case debug_time m of None \<Rightarrow> Detected (item_key a) | Some c \<Rightarrow> DebugDetected (item_key a),
          SendFailed (resp_text r)]"
      "last_items m' = insert (item_key a) (last_items m)"
    using assms
    by (auto simp: check_item_def send_notification_def print_simps add_key_simps Let_def
          is_candidate_def split: option.splits)
  have known: "item_key a \<in> last_items m'" using m'(4) by simp
  show ?thesis
    using m' grows_no_repost [OF check_items_grows known]
      grows_no_repost [OF check_sources_grows known]
      grows_no_repost [OF run_grows known]
    by blast
qed

theorem failed_delivery_is_swallowed_witness:
  "\<not> is_first_run baseline \<and>
   format_notification TencentCloudSource (TencentCloudItem raw_b) = Inr notice_b \<and>
   strptime (date notice_b) = Inr (Date 2025 1 20) \<and>
   is_candidate (debug_time baseline) notice_b \<and>
   item_key notice_b \<notin> last_items baseline \<and>
   webhook_500 (length (posts baseline)) notice_b = Inr error_page \<and>
   status_code error_page = 500 \<and>
   (\<exists>m'. check_item webhook_500 TencentCloudSource (TencentCloudItem raw_b) baseline = Done m' \<and>
         posts m' = [notice_b] \<and>
         last_items m' = {item_key notice_b, item_key notice_a} \<and>
         (\<forall>b \<in> set (drop 1 (posts (run a_and_b webhook_500 2 m'))).
            item_key b \<noteq> item_key notice_b))"
proof -
  have h: "\<not> is_first_run baseline"
    "format_notification TencentCloudSource (TencentCloudItem raw_b) = Inr notice_b"
    "strptime (date notice_b) = Inr (Date 2025 1 20)"
    "is_candidate (debug_time baseline) notice_b"
    "item_key notice_b \<notin> last_items baseline"
    "webhook_500 (length (posts baseline)) notice_b = Inr error_page"
    "status_code error_page < 200 \<or> 300 \<le> status_code error_page"
    using keys_differ
    by (auto simp: baseline_fields tencent_format tencent_formats raw_b_def notice_dates
        strptime_examples is_candidate_def webhook_500_def error_page_def)
  have st: "status_code error_page = 500" by (simp add: error_page_def)
  from failed_delivery_is_swallowed [where webhook = webhook_500 and a = notice_b, OF h]
  obtain m' where
    m': "check_item webhook_500 TencentCloudSource (TencentCloudItem raw_b) baseline = Done m'"
      "posts m' = posts baseline @ [notice_b]"
      "last_items m' = insert (item_key notice_b) (last_items baseline)"
      "\<forall>nets wh n. \<forall>b \<in> set (drop (length (posts m')) (posts (run nets wh n m'))).
         item_key b \<noteq> item_key notice_b"
    by blast
  have "posts m' = [notice_b]" "last_items m' = {item_key notice_b, item_key notice_a}"
    "\<forall>b \<in> set (drop 1 (posts (run a_and_b webhook_500 2 m'))). item_key b \<noteq> item_key notice_b"
    using m'(2,3) m'(4) [rule_format, of _ a_and_b webhook_500 2]
    by (auto simp: baseline_fields)
  then show ?thesis using h st m'(1) by blast
qed

text \<open>
  C9, as stated, fails: \<open>TencentCloudSource.get_announcements\<close> keeps a row whose time
  element is blank, and \<open>format_notification\<close> raises \<open>IndexError\<close> on the raw item it
  makes of it (there is no first token to take as the date).
\<close>

theorem format_fails_on_blank_time:
  "TencentCloudSource_get_announcements (tencent_only [row_blank]) = Inr [raw_blank] \<and>
   TencentCloudSource_format_notification raw_blank = Inl IndexError"
  by (simp add: TencentCloudSource_get_announcements_def TencentCloudSource_try_def
      tencent_only_def page_def blank_row blank_format)

text \<open>
  C9, amended. On a raw item of \<open>TencentCloudSource\<close> or \<open>YeepaySource\<close> whose
  published-time text has at least one token, \<open>format_notification\<close> returns: the date
  is the first token, the time the second, or the empty string when there is none. On a
  raw item of \<open>WeixinPaySource\<close> that is a dict with \<open>contentTitle\<close>, \<open>contentId\<close> and
  an integer \<open>contentPublishTime\<close> that converts to local time, it returns as well.
\<close>

theorem format_notification_on_dated_items:
  "(split_ws (beginTime item) = d # rest \<longrightarrow>
      TencentCloudSource_format_notification item =
        Inr \<lparr>title = tc_title item, date = d,
             time = (case rest of [] \<Rightarrow> [] | t # ts \<Rightarrow> t),
             url = ascii ''https://cloud.tencent.com/announce/detail/'' @ announceId item,
             source = [33150, 35759, 20113]\<rparr>) \<and>
   (split_ws (pubTime item') = d' # rest' \<longrightarrow>
      YeepaySource_format_notification item' =
        Inr \<lparr>title = yp_title item', date = d',
             time = (case rest' of [] \<Rightarrow> [] | t # ts \<Rightarrow> t),
             url = ascii ''https://www.yeepay.com/notice-detail/'' @ noticeId item',
             source = [26131, 23453, 25903, 20184]\<rparr>) \<and>
   (map_of kvs (ascii ''contentPublishTime'') = Some (PInt ts) \<and> localtime ts = Inr (pd, pt) \<and>
    map_of kvs (ascii ''contentTitle'') = Some content_title \<and>
    map_of kvs (ascii ''contentId'') = Some content_id \<longrightarrow>
      WeixinPaySource_format_notification localtime repr (PDict kvs) =
        Inr \<lparr>title = py_str repr content_title, date = pd, time = pt,
             url = ascii ''https://pay.weixin.qq.com/index.php/public/cms/content_detail?id=''
                   @ py_str repr content_id,
             source = [24494, 20449, 25903, 20184]\<rparr>)"
  by (auto simp: TencentCloudSource_format_notification_def YeepaySource_format_notification_def
        WeixinPaySource_format_notification_def subscript_def timestamp_arg_def Let_def
      split: list.splits)

theorem format_notification_on_dated_items_witness:
  "split_ws (beginTime raw_date_only) = [ascii ''2025-01-12''] \<and>
   TencentCloudSource_format_notification raw_date_only =
     Inr \<lparr>title = ascii ''Notice D'', date = ascii ''2025-01-12'', time = [],
          url = ascii ''https://cloud.tencent.com/announce/detail/104'',
          source = [33150, 35759, 20113]\<rparr> \<and>
   split_ws (pubTime yeepay_raw) = [ascii ''2025-01-13'', ascii ''08:00:00''] \<and>
   YeepaySource_format_notification yeepay_raw =
     Inr \<lparr>title = ascii ''Notice E'', date = ascii ''2025-01-13'', time = ascii ''08:00:00'',
          url = ascii ''https://www.yeepay.com/notice-detail/7'',
          source = [26131, 23453, 25903, 20184]\<rparr> \<and>
   WeixinPaySource_format_notification utc_epoch no_repr weixin_raw =
     Inr \<lparr>title = ascii ''Notice F'', date = ascii ''1970-01-01'', time = ascii ''00:00:00'',
          url = ascii ''https://pay.weixin.qq.com/index.php/public/cms/content_detail?id=42'',
          source = [24494, 20449, 25903, 20184]\<rparr>"
proof -
  have t: "split_ws (beginTime raw_date_only) = ascii ''2025-01-12'' # []"
    by (simp add: raw_date_only_def split_ws_def ascii_def isspace_def)
  have y: "split_ws (pubTime yeepay_raw) = ascii ''2025-01-13'' # [ascii ''08:00:00'']"
    by (simp add: yeepay_raw_def split_ws_def ascii_def isspace_def)
  have w: "map_of [(ascii ''contentId'', PInt 42), (ascii ''contentTitle'', PStr (ascii ''Notice F'')),
                   (ascii ''contentPublishTime'', PInt 0)] (ascii ''contentPublishTime'') = Some (PInt 0) \<and>
           utc_epoch 0 = Inr (ascii ''1970-01-01'', ascii ''00:00:00'') \<and>
           map_of [(ascii ''contentId'', PInt 42), (ascii ''contentTitle'', PStr (ascii ''Notice F'')),
                   (ascii ''contentPublishTime'', PInt 0)] (ascii ''contentTitle'') = Some (PStr (ascii ''Notice F'')) \<and>
           map_of [(ascii ''contentId'', PInt 42), (ascii ''contentTitle'', PStr (ascii ''Notice F'')),
                   (ascii ''contentPublishTime'', PInt 0)] (ascii ''contentId'') = Some (PInt 42)"
    by (simp add: utc_epoch_def ascii_def)
  have s42: "str_int 42 = ascii ''42''"
    by (simp add: str_int_def digits_of.simps ascii_def)
  note inst = format_notification_on_dated_items
    [where item = raw_date_only and d = "ascii ''2025-01-12''" and rest = "[]"
       and item' = yeepay_raw and d' = "ascii ''2025-01-13''" and rest' = "[ascii ''08:00:00'']"
       and kvs = "[(ascii ''contentId'', PInt 42), (ascii ''contentTitle'', PStr (ascii ''Notice F'')),
                   (ascii ''contentPublishTime'', PInt 0)]"
       and ts = 0 and localtime = utc_epoch and pd = "ascii ''1970-01-01''" and pt = "ascii ''00:00:00''"
       and content_title = "PStr (ascii ''Notice F'')" and content_id = "PInt 42" and repr = no_repr]
  have "TencentCloudSource_format_notification raw_date_only =
     Inr \<lparr>title = ascii ''Notice D'', date = ascii ''2025-01-12'', time = [],
          url = ascii ''https://cloud.tencent.com/announce/detail/104'',
          source = [33150, 35759, 20113]\<rparr>"
    using inst t by (simp add: raw_date_only_def ascii_def)
  moreover have "YeepaySource_format_notification yeepay_raw =
     Inr \<lparr>title = ascii ''Notice E'', date = ascii ''2025-01-13'', time = ascii ''08:00:00'',
          url = ascii ''https://www.yeepay.com/notice-detail/7'',
          source = [26131, 23453, 25903, 20184]\<rparr>"
    using inst y by (simp add: yeepay_raw_def ascii_def)
  moreover have "WeixinPaySource_format_notification utc_epoch no_repr weixin_raw =
     Inr \<lparr>title = ascii ''Notice F'', date = ascii ''1970-01-01'', time = ascii ''00:00:00'',
          url = ascii ''https://pay.weixin.qq.com/index.php/public/cms/content_detail?id=42'',
          source = [24494, 20449, 25903, 20184]\<rparr>"
    using inst w s42 unfolding weixin_raw_def by (simp add: py_str_def) (simp add: ascii_def)
  ultimately show ?thesis using t y by simp
qed

text \<open>
  C10. Starting from a first-run monitor, the monitor is still in its first run after
  \<open>n\<close> turns of the loop exactly when each of these turns ended in the top-level handler:
  a cycle that raises does not make the transition, a cycle that completes does. As long
  as the monitor is in its first run no notification has been sent, and the next cycle,
  the first to complete included, sends none either. The first cycle that completes is
  the baseline: it adds the key of every candidate it fetched to the ledger (in NORMAL
  mode every announcement is a candidate).
\<close>

theorem first_run_lasts_until_a_cycle_completes:
  assumes "is_first_run m"
  shows "(is_first_run (run nets webhook n m) \<longleftrightarrow>
           (\<forall>i<n. \<exists>e m1. check_updates_try (nets i) webhook (run nets webhook i m) = Raised e m1)) \<and>
         (is_first_run (run nets webhook n m) \<longrightarrow> posts (run nets webhook (Suc n) m) = posts m) \<and>
         (is_first_run (run nets webhook n m) \<and>
          (\<exists>m1. check_updates_try (nets n) webhook (run nets webhook n m) = Done m1) \<longrightarrow>
            \<not> is_first_run (run nets webhook (Suc n) m) \<and>
            last_items (run nets webhook (Suc n) m) =
              last_items (run nets webhook n m) \<union>
              item_key ` set (filter (is_candidate (debug_time m)) (fetched (nets n) (sources m))))"
proof (intro conjI impI)
  show "is_first_run (run nets webhook n m) \<longleftrightarrow>
          (\<forall>i<n. \<exists>e m1. check_updates_try (nets i) webhook (run nets webhook i m) = Raised e m1)"
    using assms run_first_run_iff [of nets webhook n m] by simp
next
  assume "is_first_run (run nets webhook n m)"
  then show "posts (run nets webhook (Suc n) m) = posts m"
    using run_first_run_posts [of nets webhook n m]
      check_updates_first_run_posts [of "run nets webhook n m" "nets n" webhook]
    by simp
next
  assume h: "is_first_run (run nets webhook n m) \<and>
          (\<exists>m1. check_updates_try (nets n) webhook (run nets webhook n m) = Done m1)"
  then show "\<not> is_first_run (run nets webhook (Suc n) m)"
    by (auto simp: check_updates_first_run_iff)
next
  assume h: "is_first_run (run nets webhook n m) \<and>
          (\<exists>m1. check_updates_try (nets n) webhook (run nets webhook n m) = Done m1)"
  then obtain m1 where
    "check_updates_try (nets n) webhook (run nets webhook n m) = Done m1" by blast
  from first_complete_cycle [OF _ this] h
  show "last_items (run nets webhook (Suc n) m) =
          last_items (run nets webhook n m) \<union>
          item_key ` set (filter (is_candidate (debug_time m)) (fetched (nets n) (sources m)))"
    by (simp add: run_frame)
qed

theorem first_run_lasts_until_a_cycle_completes_witness:
  "is_first_run (main_monitor no_localtime no_repr) \<and>
   is_first_run (run outage_then_a webhook_ok 1 (main_monitor no_localtime no_repr)) \<and>
   (\<exists>m1. check_updates_try (outage_then_a 1) webhook_ok
            (run outage_then_a webhook_ok 1 (main_monitor no_localtime no_repr)) = Done m1) \<and>
   posts (run outage_then_a webhook_ok 2 (main_monitor no_localtime no_repr)) = [] \<and>
   \<not> is_first_run (run outage_then_a webhook_ok 2 (main_monitor no_localtime no_repr)) \<and>
   last_items (run outage_then_a webhook_ok 2 (main_monitor no_localtime no_repr))
     = {item_key notice_a}"
proof -
  let ?m = "main_monitor no_localtime no_repr"
  let ?s = "run outage_then_a webhook_ok 1 ?m"
  have h: "is_first_run ?m" by (simp add: main_monitor_fields)
  have raised: "\<forall>i<1. \<exists>e m1. check_updates_try (outage_then_a i) webhook_ok
                         (run outage_then_a webhook_ok i ?m) = Raised e m1"
    by (simp add: outage_then_a_def outage_raises)
  have s: "?s = print (CheckError ConnectionError) ?m"
    by (simp add: outage_then_a_def check_updates_def outage_raises)
  have fields: "sources ?s = [WeixinPaySource no_localtime no_repr, TencentCloudSource, YeepaySource]"
    "last_items ?s = {}" "is_first_run ?s" "debug_time ?s = None"
    unfolding s by (simp_all add: print_simps main_monitor_fields)
  have wf: "all_well_formed (outage_then_a 1) (sources ?s)"
    unfolding fields by (simp add: outage_then_a_def well_formed_a)
  have ans: "answers webhook_ok (length (posts ?s))
               (to_send (is_first_run ?s) (last_items ?s) (debug_time ?s)
                  (fetched (outage_then_a 1) (sources ?s)))"
    using fields(3) by (simp add: to_send_def)
  from check_updates_clean [OF wf ans]
  have completes: "\<exists>m1. check_updates_try (outage_then_a 1) webhook_ok ?s = Done m1"
    by blast
  have two: "Suc 1 = 2" by simp
  have fetched: "fetched (outage_then_a (Suc 0))
                   [WeixinPaySource no_localtime no_repr, TencentCloudSource, YeepaySource]
                   = [notice_a]"
    by (simp add: outage_then_a_def fetched_a)
  show ?thesis
    using h raised completes fields(2)
      first_run_lasts_until_a_cycle_completes [OF h, of outage_then_a webhook_ok 1]
    unfolding two
    by (simp add: main_monitor_fields fetched is_candidate_def)
qed

end
